theory Spec2Isabelle
  imports Main "HOL-Library.Word"
begin

unbundle bit_operations_syntax

section \<open>Data model of \<^verbatim>\<open>gpg/path_keys.go\<close>\<close>

text \<open>
  Bytes are 8-bit words, Go strings are \<open>string\<close>, a Go \<open>error\<close> value is
  represented by its message. A handler returns the Go pair
  \<open>(*logical.Response, error)\<close>: \<open>Inl err\<close> is \<open>(nil, err)\<close>, \<open>Inr None\<close> is
  \<open>(nil, nil)\<close> and \<open>Inr (Some r)\<close> is \<open>(r, nil)\<close>. A run-time panic (the index
  expression \<open>el[0]\<close> on an empty slice) is a separate outcome.
\<close>

type_synonym byte = "8 word"

datatype error = Error string

datatype panic = IndexOutOfRange

datatype 'a outcome = Returns 'a | Panics panic

datatype fieldval = VString string | VBool bool

datatype response = Response "string \<rightharpoonup> fieldval" | ErrorResponse string

type_synonym handler_result = "(error + response option) outcome"

text \<open>
  The OpenPGP packets are opaque to this file: \<open>'k\<close> is a private-key packet,
  \<open>'p\<close> the key material of a public-key packet, \<open>'u\<close> a user-ID packet and
  \<open>'s\<close> a signature packet. Of a public key the code reads only the
  \<open>Fingerprint\<close> array. \<open>Identities\<close> is a Go map; the list gives its entries
  in the order in which \<open>range\<close> visits them, which Go leaves unspecified.
  Only the two \<open>PrivateKey\<close> pointers are tested against \<open>nil\<close> by the code.
\<close>

record 'p PublicKey =
  Fingerprint :: "byte list"
  KeyMaterial :: 'p

record ('u, 's) Identity =
  Name :: string
  UserId :: 'u
  SelfSignature :: 's

record ('k, 'p, 's) Subkey =
  Subkey_PublicKey :: "'p PublicKey"
  Subkey_PrivateKey :: "'k option"
  Sig :: 's

record ('k, 'p, 'u, 's) Entity =
  PrimaryKey :: "'p PublicKey"
  PrivateKey :: "'k option"
  Identities :: "('u, 's) Identity list"
  Subkeys :: "('k, 'p, 's) Subkey list"

record Config =
  RSABits :: int

record keyEntry =
  SerializedKey :: "byte list"
  Exportable :: bool

record StorageEntry =
  Key :: string
  Value :: "byte list"

text \<open>
  The fields of a request, as \<open>data.Get\<close> returns them after the framework
  has applied the schema of \<open>pathKeys\<close> (strings, a Go \<open>int\<close>, booleans).
\<close>

record fieldData =
  field_name :: string
  field_real_name :: string
  field_email :: string
  field_comment :: string
  field_key_bits :: int
  field_exportable :: bool
  field_generate :: bool
  field_key :: string

subsection \<open>Library calls taken as parameters\<close>

text \<open>
  The functions of \<open>golang.org/x/crypto/openpgp\<close> and of the Vault SDK that the
  file calls are parameters of the model. A \<open>Serialize(w)\<close> method writes to an
  in-memory buffer and returns an error: it is given by the bytes it appends
  and the error it returns (\<open>None\<close> for \<open>nil\<close>).
\<close>

type_synonym written = "byte list \<times> error option"

record ('k, 'p, 'u, 's) lib =
  ReadKeyRing :: "byte list \<Rightarrow> error + ('k, 'p, 'u, 's) Entity list"
  ReadArmoredKeyRing :: "string \<Rightarrow> error + ('k, 'p, 'u, 's) Entity list"
  NewEntity :: "string \<Rightarrow> string \<Rightarrow> string \<Rightarrow> Config \<Rightarrow> error + ('k, 'p, 'u, 's) Entity"
  SerializePrivate :: "('k, 'p, 'u, 's) Entity \<Rightarrow> written"
  PrivateKey_Serialize :: "'k \<Rightarrow> written"
  PublicKey_Serialize :: "'p PublicKey \<Rightarrow> written"
  UserId_Serialize :: "'u \<Rightarrow> written"
  Signature_Serialize :: "'s \<Rightarrow> written"
  armor_Encode :: "string \<Rightarrow> byte list \<Rightarrow> string"
  PublicKeyType :: string
  EncodeJSON :: "keyEntry \<Rightarrow> error + byte list"
  DecodeJSON :: "byte list \<Rightarrow> error + keyEntry"

text \<open>\<open>err = x.Serialize(w)\<close> on the buffer \<open>w\<close>: the bytes are appended.\<close>

definition Serialize_to :: "byte list \<Rightarrow> written \<Rightarrow> byte list \<times> error option" where
  "Serialize_to w r = (w @ fst r, snd r)"

definition StorageEntryJSON ::
  "('k, 'p, 'u, 's) lib \<Rightarrow> string \<Rightarrow> keyEntry \<Rightarrow> error + StorageEntry" where
  "StorageEntryJSON lib k v =
     (case EncodeJSON lib v of
        Inl err \<Rightarrow> Inl err
      | Inr bs \<Rightarrow> Inr \<lparr>Key = k, Value = bs\<rparr>)"

subsection \<open>The storage collaborator\<close>

text \<open>
  Modelled from the spec: \<open>logical.Storage\<close> is an interface of the Vault SDK,
  absent from the source file. Section 6 gives its contract,
  \<open>get(key) -> bytes|absent\<close>, \<open>put(key, bytes)\<close>, \<open>delete(key)\<close>, and section 7
  its failures (storage I/O failure). The store is a map from keys to bytes;
  a call fails with the error held in the matching field and then leaves the
  map as it is.
\<close>

record storage =
  entries :: "string \<rightharpoonup> byte list"
  getErr :: "error option"
  putErr :: "error option"
  deleteErr :: "error option"

definition Storage_Get :: "storage \<Rightarrow> string \<Rightarrow> error + StorageEntry option" where
  "Storage_Get st k =
     (case getErr st of
        Some err \<Rightarrow> Inl err
      | None \<Rightarrow> Inr (map_option (\<lambda>bs. \<lparr>Key = k, Value = bs\<rparr>) (entries st k)))"

definition Storage_Put :: "storage \<Rightarrow> StorageEntry \<Rightarrow> error option \<times> storage" where
  "Storage_Put st e =
     (case putErr st of
        Some err \<Rightarrow> (Some err, st)
      | None \<Rightarrow> (None, st\<lparr>entries := (entries st)(Key e \<mapsto> Value e)\<rparr>))"

definition Storage_Delete :: "storage \<Rightarrow> string \<Rightarrow> error option \<times> storage" where
  "Storage_Delete st k =
     (case deleteErr st of
        Some err \<Rightarrow> (Some err, st)
      | None \<Rightarrow> (None, st\<lparr>entries := (entries st)(k := None)\<rparr>))"

subsection \<open>\<^verbatim>\<open>hex.EncodeToString\<close>\<close>

text \<open>
  Modelled from the spec: \<open>encoding/hex\<close> is Go's standard library, absent from
  the source file. Section 6 calls the fingerprint a lowercase-hex string:
  two digits per byte, high nibble first, from the table below.
\<close>

definition hextable :: string where
  "hextable = ''0123456789abcdef''"

fun EncodeToString :: "byte list \<Rightarrow> string" where
  "EncodeToString [] = []"
| "EncodeToString (b # bs) =
     hextable ! unat (drop_bit 4 b) # hextable ! unat (b AND 0x0f) # EncodeToString bs"

subsection \<open>\<^verbatim>\<open>Entity.Serialize\<close>\<close>

text \<open>
  Modelled from the spec: \<open>Entity.Serialize\<close> belongs to the OpenPGP library,
  absent from the source file. Section 4.1 (\<open>encode_public_armor\<close>): it
  serializes only public components, namely the primary public key, the
  identities with their self-signatures, and the public part of each subkey
  with its signature. It stops at the first packet that fails.
\<close>

fun Entity_Serialize_Identities ::
  "('k, 'p, 'u, 's) lib \<Rightarrow> byte list \<Rightarrow> ('u, 's) Identity list \<Rightarrow> byte list \<times> error option" where
  "Entity_Serialize_Identities lib w [] = (w, None)"
| "Entity_Serialize_Identities lib w (ident # rest) =
     (case Serialize_to w (UserId_Serialize lib (UserId ident)) of
        (w1, Some err) \<Rightarrow> (w1, Some err)
      | (w1, None) \<Rightarrow>
          (case Serialize_to w1 (Signature_Serialize lib (SelfSignature ident)) of
             (w2, Some err) \<Rightarrow> (w2, Some err)
           | (w2, None) \<Rightarrow> Entity_Serialize_Identities lib w2 rest))"

fun Entity_Serialize_Subkeys ::
  "('k, 'p, 'u, 's) lib \<Rightarrow> byte list \<Rightarrow> ('k, 'p, 's) Subkey list \<Rightarrow> byte list \<times> error option" where
  "Entity_Serialize_Subkeys lib w [] = (w, None)"
| "Entity_Serialize_Subkeys lib w (subkey # rest) =
     (case Serialize_to w (PublicKey_Serialize lib (Subkey_PublicKey subkey)) of
        (w1, Some err) \<Rightarrow> (w1, Some err)
      | (w1, None) \<Rightarrow>
          (case Serialize_to w1 (Signature_Serialize lib (Sig subkey)) of
             (w2, Some err) \<Rightarrow> (w2, Some err)
           | (w2, None) \<Rightarrow> Entity_Serialize_Subkeys lib w2 rest))"

definition Entity_Serialize ::
  "('k, 'p, 'u, 's) lib \<Rightarrow> byte list \<Rightarrow> ('k, 'p, 'u, 's) Entity \<Rightarrow> byte list \<times> error option" where
  "Entity_Serialize lib w e =
     (case Serialize_to w (PublicKey_Serialize lib (PrimaryKey e)) of
        (w1, Some err) \<Rightarrow> (w1, Some err)
      | (w1, None) \<Rightarrow>
          (case Entity_Serialize_Identities lib w1 (Identities e) of
             (w2, Some err) \<Rightarrow> (w2, Some err)
           | (w2, None) \<Rightarrow> Entity_Serialize_Subkeys lib w2 (Subkeys e)))"

section \<open>The functions of the source file\<close>

subsection \<open>\<^verbatim>\<open>key\<close> and \<^verbatim>\<open>entity\<close>\<close>

definition key ::
  "('k, 'p, 'u, 's) lib \<Rightarrow> storage \<Rightarrow> string \<Rightarrow> error + keyEntry option" where
  "key lib s name =
     (case Storage_Get s (''key/'' @ name) of
        Inl err \<Rightarrow> Inl err
      | Inr None \<Rightarrow> Inr None
      | Inr (Some entry) \<Rightarrow>
          (case DecodeJSON lib (Value entry) of
             Inl err \<Rightarrow> Inl err
           | Inr result \<Rightarrow> Inr (Some result)))"

text \<open>\<open>el[0]\<close> panics on the empty slice; Go checks the index at run time.\<close>

definition entity ::
  "('k, 'p, 'u, 's) lib \<Rightarrow> keyEntry \<Rightarrow> (error + ('k, 'p, 'u, 's) Entity) outcome" where
  "entity lib entry =
     (case ReadKeyRing lib (SerializedKey entry) of
        Inl err \<Rightarrow> Returns (Inl err)
      | Inr el \<Rightarrow>
          (case el of
             [] \<Rightarrow> Panics IndexOutOfRange
           | e0 # _ \<Rightarrow> Returns (Inr e0)))"

subsection \<open>\<^verbatim>\<open>serializePrivateWithoutSigning\<close>\<close>

text \<open>
  The two \<open>range\<close> loops are recursions over the lists; the second carries the
  flag \<open>foundPrivateKey\<close>. Every \<open>if err != nil { return }\<close> is a branch that
  returns the buffer as written so far together with the error.
\<close>

fun range_Identities ::
  "('k, 'p, 'u, 's) lib \<Rightarrow> byte list \<Rightarrow> ('u, 's) Identity list \<Rightarrow> byte list \<times> error option" where
  "range_Identities lib w [] = (w, None)"
| "range_Identities lib w (ident # rest) =
     (case Serialize_to w (UserId_Serialize lib (UserId ident)) of
        (w1, Some err) \<Rightarrow> (w1, Some err)
      | (w1, None) \<Rightarrow>
          (case Serialize_to w1 (Signature_Serialize lib (SelfSignature ident)) of
             (w2, Some err) \<Rightarrow> (w2, Some err)
           | (w2, None) \<Rightarrow> range_Identities lib w2 rest))"

fun range_Subkeys ::
  "('k, 'p, 'u, 's) lib \<Rightarrow> byte list \<Rightarrow> bool \<Rightarrow> ('k, 'p, 's) Subkey list
     \<Rightarrow> (byte list \<times> bool) \<times> error option" where
  "range_Subkeys lib w foundPrivateKey [] = ((w, foundPrivateKey), None)"
| "range_Subkeys lib w foundPrivateKey (subkey # rest) =
     (case (case Subkey_PrivateKey subkey of
              None \<Rightarrow> ((w, foundPrivateKey), None)
            | Some k \<Rightarrow>
                (case Serialize_to w (PrivateKey_Serialize lib k) of
                   (w1, err) \<Rightarrow> ((w1, True), err))) of
        ((w1, found1), Some err) \<Rightarrow> ((w1, found1), Some err)
      | ((w1, found1), None) \<Rightarrow>
          (case Serialize_to w1 (Signature_Serialize lib (Sig subkey)) of
             (w2, Some err) \<Rightarrow> ((w2, found1), Some err)
           | (w2, None) \<Rightarrow> range_Subkeys lib w2 found1 rest))"

definition serializePrivateWithoutSigning ::
  "('k, 'p, 'u, 's) lib \<Rightarrow> byte list \<Rightarrow> ('k, 'p, 'u, 's) Entity \<Rightarrow> byte list \<times> error option" where
  "serializePrivateWithoutSigning lib w e =
     (case (case PrivateKey e of
              None \<Rightarrow> ((w, False), None)
            | Some k \<Rightarrow>
                (case Serialize_to w (PrivateKey_Serialize lib k) of
                   (w1, err) \<Rightarrow> ((w1, True), err))) of
        ((w1, found1), Some err) \<Rightarrow> (w1, Some err)
      | ((w1, found1), None) \<Rightarrow>
          (case range_Identities lib w1 (Identities e) of
             (w2, Some err) \<Rightarrow> (w2, Some err)
           | (w2, None) \<Rightarrow>
               (case range_Subkeys lib w2 found1 (Subkeys e) of
                  ((w3, found3), Some err) \<Rightarrow> (w3, Some err)
                | ((w3, found3), None) \<Rightarrow>
                    if \<not> found3 then (w3, Some (Error ''No private key has been found''))
                    else (w3, None))))"

subsection \<open>The handlers\<close>

text \<open>
  \<open>pathKeyRead\<close> only calls \<open>Get\<close> on the storage, so it returns no new store.
  The armor writer wraps an in-memory buffer; the error of \<open>armor.Encode\<close> is
  overwritten by that of \<open>entity.Serialize\<close>, which alone is tested.
\<close>

definition pathKeyRead ::
  "('k, 'p, 'u, 's) lib \<Rightarrow> storage \<Rightarrow> fieldData \<Rightarrow> handler_result" where
  "pathKeyRead lib s d =
     (case key lib s (field_name d) of
        Inl err \<Rightarrow> Returns (Inl err)
      | Inr None \<Rightarrow> Returns (Inr None)
      | Inr (Some entry) \<Rightarrow>
          (case entity lib entry of
             Panics p \<Rightarrow> Panics p
           | Returns (Inl err) \<Rightarrow> Returns (Inl err)
           | Returns (Inr ent) \<Rightarrow>
               (case Entity_Serialize lib [] ent of
                  (buf, Some err) \<Rightarrow> Returns (Inl err)
                | (buf, None) \<Rightarrow>
                    Returns (Inr (Some (Response
                      [''fingerprint'' \<mapsto> VString (EncodeToString (Fingerprint (PrimaryKey ent))),
                       ''public_key'' \<mapsto> VString (armor_Encode lib (PublicKeyType lib) buf),
                       ''exportable'' \<mapsto> VBool (Exportable entry)]))))))"

text \<open>
  The \<open>switch generate\<close> either returns early or leaves the serialized key in
  \<open>buf\<close>; \<open>Inl\<close> is the early return, \<open>Inr\<close> the buffer.
\<close>

definition pathKeyCreate ::
  "('k, 'p, 'u, 's) lib \<Rightarrow> storage \<Rightarrow> fieldData \<Rightarrow> handler_result \<times> storage" where
  "pathKeyCreate lib s d =
     (case (if field_generate d then
              (if field_key_bits d < 2048 then
                 Inl (Returns (Inr (Some (ErrorResponse
                   ''Keys < 2048 bits are unsafe and not supported''))))
               else
                 (case NewEntity lib (field_real_name d) (field_comment d) (field_email d)
                         \<lparr>RSABits = field_key_bits d\<rparr> of
                    Inl err \<Rightarrow> Inl (Returns (Inl err))
                  | Inr ent \<Rightarrow>
                      (case Serialize_to [] (SerializePrivate lib ent) of
                         (buf, Some err) \<Rightarrow> Inl (Returns (Inl err))
                       | (buf, None) \<Rightarrow> Inr buf)))
            else
              (if field_key d = [] then
                 Inl (Returns (Inr (Some (ErrorResponse
                   ''the key value is required for generated keys''))))
               else
                 (case ReadArmoredKeyRing lib (field_key d) of
                    Inl (Error msg) \<Rightarrow> Inl (Returns (Inr (Some (ErrorResponse msg))))
                  | Inr el \<Rightarrow>
                      (case el of
                         [] \<Rightarrow> Inl (Panics IndexOutOfRange)
                       | e0 # _ \<Rightarrow>
                           (case serializePrivateWithoutSigning lib [] e0 of
                              (buf, Some err) \<Rightarrow>
                                Inl (Returns (Inr (Some (ErrorResponse
                                  ''the key could not be serialized, is a private key present?''))))
                            | (buf, None) \<Rightarrow> Inr buf))))) of
        Inl early \<Rightarrow> (early, s)
      | Inr buf \<Rightarrow>
          (case StorageEntryJSON lib (''key/'' @ field_name d)
                  \<lparr>SerializedKey = buf, Exportable = field_exportable d\<rparr> of
             Inl err \<Rightarrow> (Returns (Inl err), s)
           | Inr entry \<Rightarrow>
               (case Storage_Put s entry of
                  (Some err, s') \<Rightarrow> (Returns (Inl err), s')
                | (None, s') \<Rightarrow> (Returns (Inr None), s'))))"

definition pathKeyDelete :: "storage \<Rightarrow> fieldData \<Rightarrow> handler_result \<times> storage" where
  "pathKeyDelete s d =
     (case Storage_Delete s (''key/'' @ field_name d) of
        (Some err, s') \<Rightarrow> (Returns (Inl err), s')
      | (None, s') \<Rightarrow> (Returns (Inr None), s'))"


section \<open>Specification-side definitions\<close>

subsection \<open>The packet order of section 4.1\<close>

text \<open>
  The order in which \<open>encode_private_without_signing\<close> is specified to write:
  the primary private key if present, then for each identity its user-ID
  packet and its existing self-signature, then for each subkey its private
  key if present and its existing binding signature. The packets are the
  values held by the entity; nothing is signed anew.
\<close>

datatype ('k, 'u, 's) packet = PrivateKeyPacket 'k | UserIdPacket 'u | SignaturePacket 's

fun packet_Serialize :: "('k, 'p, 'u, 's) lib \<Rightarrow> ('k, 'u, 's) packet \<Rightarrow> written" where
  "packet_Serialize lib (PrivateKeyPacket k) = PrivateKey_Serialize lib k"
| "packet_Serialize lib (UserIdPacket u) = UserId_Serialize lib u"
| "packet_Serialize lib (SignaturePacket s) = Signature_Serialize lib s"

fun write_packets ::
  "('k, 'p, 'u, 's) lib \<Rightarrow> byte list \<Rightarrow> ('k, 'u, 's) packet list \<Rightarrow> byte list \<times> error option" where
  "write_packets lib w [] = (w, None)"
| "write_packets lib w (p # ps) =
     (case Serialize_to w (packet_Serialize lib p) of
        (w1, Some err) \<Rightarrow> (w1, Some err)
      | (w1, None) \<Rightarrow> write_packets lib w1 ps)"

definition private_key_packets :: "'k option \<Rightarrow> ('k, 'u, 's) packet list" where
  "private_key_packets pk = (case pk of None \<Rightarrow> [] | Some k \<Rightarrow> [PrivateKeyPacket k])"

definition identity_packets :: "('u, 's) Identity \<Rightarrow> ('k, 'u, 's) packet list" where
  "identity_packets ident = [UserIdPacket (UserId ident), SignaturePacket (SelfSignature ident)]"

definition subkey_packets :: "('k, 'p, 's) Subkey \<Rightarrow> ('k, 'u, 's) packet list" where
  "subkey_packets subkey =
     private_key_packets (Subkey_PrivateKey subkey) @ [SignaturePacket (Sig subkey)]"

definition packet_order :: "('k, 'p, 'u, 's) Entity \<Rightarrow> ('k, 'u, 's) packet list" where
  "packet_order e =
     private_key_packets (PrivateKey e)
     @ concat (map identity_packets (Identities e))
     @ concat (map subkey_packets (Subkeys e))"

definition carries_private :: "('k, 'p, 'u, 's) Entity \<Rightarrow> bool" where
  "carries_private e =
     (PrivateKey e \<noteq> None \<or> list_ex (\<lambda>subkey. Subkey_PrivateKey subkey \<noteq> None) (Subkeys e))"

subsection \<open>Observations on a read\<close>



subsection \<open>Concrete inputs\<close>

text \<open>
  A small instance of the library for evaluating the functions: a packet is
  given by the bytes it serializes to, a stored record is the exportable flag
  followed by the serialized key, and the parsers recognise a few fixed inputs.
\<close>

type_synonym demo_entity_t = "(byte list, byte list, byte list, byte list) Entity"

definition alice_entity :: demo_entity_t where
  "alice_entity =
     \<lparr>PrimaryKey =
        \<lparr>Fingerprint = [0xAB, 0x01, 0x02, 0x03, 0x04, 0x05, 0x06, 0x07, 0x08, 0x09,
                        0x0A, 0x0B, 0x0C, 0x0D, 0x0E, 0x0F, 0x10, 0x7F, 0x80, 0xFF],
         KeyMaterial = [0x99, 0x01]\<rparr>,
      PrivateKey = Some [0x95, 0x01],
      Identities = [\<lparr>Name = ''alice'', UserId = [0xB4, 0x05], SelfSignature = [0x89, 0x10]\<rparr>],
      Subkeys =
        [\<lparr>Subkey_PublicKey = \<lparr>Fingerprint = replicate 20 0x11, KeyMaterial = [0xB9, 0x02]\<rparr>,
          Subkey_PrivateKey = Some [0x9D, 0x02],
          Sig = [0x89, 0x18]\<rparr>]\<rparr>"

definition bob_entity :: demo_entity_t where
  "bob_entity =
     \<lparr>PrimaryKey = \<lparr>Fingerprint = replicate 20 0x22, KeyMaterial = [0x99, 0x03]\<rparr>,
      PrivateKey = None,
      Identities = [\<lparr>Name = ''bob'', UserId = [0xB4, 0x06], SelfSignature = [0x89, 0x20]\<rparr>],
      Subkeys = []\<rparr>"

definition demo_lib :: "(byte list, byte list, byte list, byte list) lib" where
  "demo_lib =
     \<lparr>ReadKeyRing =
        (\<lambda>bs. if bs = [] then Inr []
              else if bs = [0x95, 0x01] then Inr [alice_entity, bob_entity]
              else Inl (Error ''openpgp: invalid data'')),
      ReadArmoredKeyRing =
        (\<lambda>k. if k = ''two keys'' then Inr [alice_entity, bob_entity]
             else if k = ''public only'' then Inr [bob_entity]
             else if k = ''empty block'' then Inr []
             else Inl (Error ''openpgp: invalid argument: no armored data found'')),
      NewEntity =
        (\<lambda>name comment email config.
           if RSABits config > 4096 then Inl (Error ''key generation failed'')
           else Inr alice_entity),
      SerializePrivate = (\<lambda>e. ([0x95, 0x01], None)),
      PrivateKey_Serialize = (\<lambda>k. (k, None)),
      PublicKey_Serialize = (\<lambda>p. (KeyMaterial p, None)),
      UserId_Serialize = (\<lambda>u. (u, None)),
      Signature_Serialize = (\<lambda>s. (s, None)),
      armor_Encode = (\<lambda>blockType body. ''BEGIN '' @ blockType @ '' hex '' @ EncodeToString body),
      PublicKeyType = ''PGP PUBLIC KEY BLOCK'',
      EncodeJSON = (\<lambda>k. Inr ((if Exportable k then 1 else 0) # SerializedKey k)),
      DecodeJSON =
        (\<lambda>bs. case bs of
                [] \<Rightarrow> Inl (Error ''unexpected end of JSON input'')
              | b # rest \<Rightarrow> Inr \<lparr>SerializedKey = rest, Exportable = (b = 1)\<rparr>)\<rparr>"

text \<open>The same library, except that writing a private-key packet reports an error.\<close>

definition locked_lib :: "(byte list, byte list, byte list, byte list) lib" where
  "locked_lib =
     demo_lib\<lparr>PrivateKey_Serialize := (\<lambda>k. ([], Some (Error ''unknown private key type'')))\<rparr>"

definition demo_store :: storage where
  "demo_store =
     \<lparr>entries = [''key/alice'' \<mapsto> [1, 0x95, 0x01], ''key/void'' \<mapsto> [0]],
      getErr = None, putErr = None, deleteErr = None\<rparr>"

definition request :: "string \<Rightarrow> bool \<Rightarrow> int \<Rightarrow> string \<Rightarrow> fieldData" where
  "request name gen bits k =
     \<lparr>field_name = name, field_real_name = ''Alice'', field_email = ''alice@example.org'',
      field_comment = [], field_key_bits = bits, field_exportable = True,
      field_generate = gen, field_key = k\<rparr>"



section \<open>Lemmas\<close>

subsection \<open>The loops of \<^verbatim>\<open>serializePrivateWithoutSigning\<close> write the packet order\<close>

lemma write_packets_append:
  "write_packets lib w (ps @ qs) =
     (case write_packets lib w ps of
        (w1, Some err) \<Rightarrow> (w1, Some err)
      | (w1, None) \<Rightarrow> write_packets lib w1 qs)"
  by (induction ps arbitrary: w) (auto split: prod.splits option.splits)

lemma write_packets_all_written:
  "list_all (\<lambda>p. snd (packet_Serialize lib p) = None) ps \<Longrightarrow>
     write_packets lib w ps = (w @ concat (map (\<lambda>p. fst (packet_Serialize lib p)) ps), None)"
  by (induction ps arbitrary: w) (auto simp: Serialize_to_def)

lemma range_Identities_packets:
  "range_Identities lib w ids = write_packets lib w (concat (map identity_packets ids))"
  by (induction ids arbitrary: w)
     (auto simp: identity_packets_def split: prod.splits option.splits)

lemma range_Subkeys_packets:
  "range_Subkeys lib w f sks =
     (case write_packets lib w (concat (map subkey_packets sks)) of
        (w1, Some err) \<Rightarrow> ((w1, snd (fst (range_Subkeys lib w f sks))), Some err)
      | (w1, None) \<Rightarrow>
          ((w1, f \<or> list_ex (\<lambda>subkey. Subkey_PrivateKey subkey \<noteq> None) sks), None))"
proof (induction sks arbitrary: w f)
  case Nil
  show ?case by simp
next
  case (Cons sk sks)
  show ?case
  proof (cases "Subkey_PrivateKey sk")
    case None
    show ?thesis
      apply (subst (1 2) range_Subkeys.simps)
      apply (subst Cons.IH)
      apply (simp add: None subkey_packets_def private_key_packets_def write_packets_append
          split: prod.splits option.splits)
      done
  next
    case (Some k)
    show ?thesis
      apply (subst (1 2) range_Subkeys.simps)
      apply (subst Cons.IH)
      apply (simp add: Some subkey_packets_def private_key_packets_def write_packets_append
          split: prod.splits option.splits)
      done
  qed
qed

lemma serializePrivateWithoutSigning_write_packets:
  "serializePrivateWithoutSigning lib w e =
     (case write_packets lib w (packet_order e) of
        (w', Some err) \<Rightarrow> (w', Some err)
      | (w', None) \<Rightarrow>
          (w', if carries_private e then None
               else Some (Error ''No private key has been found'')))"
  unfolding serializePrivateWithoutSigning_def packet_order_def carries_private_def
    write_packets_append range_Identities_packets
  apply (subst range_Subkeys_packets)
  apply (cases "PrivateKey e")
   apply (auto simp: private_key_packets_def split: prod.splits option.splits)
  done

subsection \<open>Which library functions a serializer consults\<close>

lemma write_packets_cong:
  "PrivateKey_Serialize lib' = PrivateKey_Serialize lib \<Longrightarrow>
   UserId_Serialize lib' = UserId_Serialize lib \<Longrightarrow>
   Signature_Serialize lib' = Signature_Serialize lib \<Longrightarrow>
   write_packets lib' w ps = write_packets lib w ps"
proof (induction ps arbitrary: w)
  case Nil
  show ?case by simp
next
  case (Cons p ps)
  have "packet_Serialize lib' p = packet_Serialize lib p"
    using Cons.prems by (cases p) simp_all
  then show ?case
    using Cons by (simp split: prod.splits option.splits)
qed

lemma serializePrivateWithoutSigning_cong:
  assumes "PrivateKey_Serialize lib' = PrivateKey_Serialize lib"
    and "UserId_Serialize lib' = UserId_Serialize lib"
    and "Signature_Serialize lib' = Signature_Serialize lib"
  shows "serializePrivateWithoutSigning lib' w e = serializePrivateWithoutSigning lib w e"
proof -
  have "write_packets lib' w (packet_order e) = write_packets lib w (packet_order e)"
    using assms by (rule write_packets_cong)
  then show ?thesis
    unfolding serializePrivateWithoutSigning_write_packets by simp
qed

lemma Entity_Serialize_Identities_cong:
  "UserId_Serialize lib' = UserId_Serialize lib \<Longrightarrow>
   Signature_Serialize lib' = Signature_Serialize lib \<Longrightarrow>
   Entity_Serialize_Identities lib' w ids = Entity_Serialize_Identities lib w ids"
  by (induction ids arbitrary: w) (auto split: prod.splits option.splits)

lemma Entity_Serialize_Subkeys_cong:
  "PublicKey_Serialize lib' = PublicKey_Serialize lib \<Longrightarrow>
   Signature_Serialize lib' = Signature_Serialize lib \<Longrightarrow>
   Entity_Serialize_Subkeys lib' w sks = Entity_Serialize_Subkeys lib w sks"
  by (induction sks arbitrary: w) (auto split: prod.splits option.splits)

lemma Entity_Serialize_cong:
  assumes "PublicKey_Serialize lib' = PublicKey_Serialize lib"
    and "UserId_Serialize lib' = UserId_Serialize lib"
    and "Signature_Serialize lib' = Signature_Serialize lib"
  shows "Entity_Serialize lib' w e = Entity_Serialize lib w e"
proof -
  have i: "Entity_Serialize_Identities lib' w1 ids = Entity_Serialize_Identities lib w1 ids"
    for w1 ids
    using assms(2,3) by (rule Entity_Serialize_Identities_cong)
  have s: "Entity_Serialize_Subkeys lib' w2 sks = Entity_Serialize_Subkeys lib w2 sks"
    for w2 sks
    using assms(1,3) by (rule Entity_Serialize_Subkeys_cong)
  show ?thesis
    unfolding Entity_Serialize_def i s assms(1) ..
qed



lemma key_cong:
  assumes "DecodeJSON lib' = DecodeJSON lib"
  shows "key lib' s n = key lib s n"
  unfolding key_def assms ..

subsection \<open>Hexadecimal digits\<close>






subsection \<open>The two stages of \<^verbatim>\<open>pathKeyCreate\<close>\<close>

text \<open>
  Whatever the request, the handler either returns early with the store
  untouched, or reaches the encoding of the record and the call of \<open>Put\<close>.
\<close>

lemma pathKeyCreate_shape:
  "\<exists>x. \<forall>s. pathKeyCreate lib s d =
     (case x of
        Inl early \<Rightarrow> (early, s)
      | Inr buf \<Rightarrow>
          (case StorageEntryJSON lib (''key/'' @ field_name d)
                  \<lparr>SerializedKey = buf, Exportable = field_exportable d\<rparr> of
             Inl err \<Rightarrow> (Returns (Inl err), s)
           | Inr entry \<Rightarrow>
               (case Storage_Put s entry of
                  (Some err, s') \<Rightarrow> (Returns (Inl err), s')
                | (None, s') \<Rightarrow> (Returns (Inr None), s'))))"
  unfolding pathKeyCreate_def by (intro exI allI) (rule refl)

lemma pathKeyCreate_failure_keeps_store:
  assumes "fst (pathKeyCreate lib s d) \<noteq> Returns (Inr None)"
  shows "snd (pathKeyCreate lib s d) = s"
proof -
  obtain x where x: "\<And>s. pathKeyCreate lib s d =
     (case x of
        Inl early \<Rightarrow> (early, s)
      | Inr buf \<Rightarrow>
          (case StorageEntryJSON lib (''key/'' @ field_name d)
                  \<lparr>SerializedKey = buf, Exportable = field_exportable d\<rparr> of
             Inl err \<Rightarrow> (Returns (Inl err), s)
           | Inr entry \<Rightarrow>
               (case Storage_Put s entry of
                  (Some err, s') \<Rightarrow> (Returns (Inl err), s')
                | (None, s') \<Rightarrow> (Returns (Inr None), s'))))"
    using pathKeyCreate_shape [of lib d] by blast
  show ?thesis
  proof (cases x)
    case (Inl early)
    then show ?thesis by (simp add: x)
  next
    case (Inr buf)
    then show ?thesis
      using assms
      by (auto simp: x Storage_Put_def split: sum.splits option.splits prod.splits)
  qed
qed

lemma pathKeyCreate_failure_before_Put:
  assumes "fst (pathKeyCreate lib s d) \<noteq> Returns (Inr None)" and "putErr s = None"
  shows "pathKeyCreate lib s' d = (fst (pathKeyCreate lib s d), s')"
proof -
  obtain x where x: "\<And>s. pathKeyCreate lib s d =
     (case x of
        Inl early \<Rightarrow> (early, s)
      | Inr buf \<Rightarrow>
          (case StorageEntryJSON lib (''key/'' @ field_name d)
                  \<lparr>SerializedKey = buf, Exportable = field_exportable d\<rparr> of
             Inl err \<Rightarrow> (Returns (Inl err), s)
           | Inr entry \<Rightarrow>
               (case Storage_Put s entry of
                  (Some err, s') \<Rightarrow> (Returns (Inl err), s')
                | (None, s') \<Rightarrow> (Returns (Inr None), s'))))"
    using pathKeyCreate_shape [of lib d] by blast
  show ?thesis
  proof (cases x)
    case (Inl early)
    then show ?thesis by (simp add: x)
  next
    case (Inr buf)
    then show ?thesis
      using assms
      by (auto simp: x Storage_Put_def split: sum.splits option.splits prod.splits)
  qed
qed



subsection \<open>The two paths of \<^verbatim>\<open>pathKeyCreate\<close>, step by step\<close>

lemma pathKeyCreate_generate:
  assumes "field_generate d" and "\<not> field_key_bits d < 2048"
  shows "pathKeyCreate lib s d =
     (case NewEntity lib (field_real_name d) (field_comment d) (field_email d)
             \<lparr>RSABits = field_key_bits d\<rparr> of
        Inl err \<Rightarrow> (Returns (Inl err), s)
      | Inr ent \<Rightarrow>
          (case SerializePrivate lib ent of
             (buf, Some err) \<Rightarrow> (Returns (Inl err), s)
           | (buf, None) \<Rightarrow>
               (case EncodeJSON lib \<lparr>SerializedKey = buf, Exportable = field_exportable d\<rparr> of
                  Inl err \<Rightarrow> (Returns (Inl err), s)
                | Inr bs \<Rightarrow>
                    (case putErr s of
                       Some err \<Rightarrow> (Returns (Inl err), s)
                     | None \<Rightarrow>
                         (Returns (Inr None),
                          s\<lparr>entries := (entries s)(''key/'' @ field_name d \<mapsto> bs)\<rparr>)))))"
  using assms
  by (auto simp: pathKeyCreate_def StorageEntryJSON_def Storage_Put_def Serialize_to_def
      split: sum.splits prod.splits option.splits)

lemma pathKeyCreate_import:
  assumes "\<not> field_generate d" and "field_key d \<noteq> []"
    and "ReadArmoredKeyRing lib (field_key d) = Inr (e # es)"
  shows "pathKeyCreate lib s d =
     (case serializePrivateWithoutSigning lib [] e of
        (buf, Some err) \<Rightarrow>
          (Returns (Inr (Some (ErrorResponse
             ''the key could not be serialized, is a private key present?''))), s)
      | (buf, None) \<Rightarrow>
          (case EncodeJSON lib \<lparr>SerializedKey = buf, Exportable = field_exportable d\<rparr> of
             Inl err \<Rightarrow> (Returns (Inl err), s)
           | Inr bs \<Rightarrow>
               (case putErr s of
                  Some err \<Rightarrow> (Returns (Inl err), s)
                | None \<Rightarrow>
                    (Returns (Inr None),
                     s\<lparr>entries := (entries s)(''key/'' @ field_name d \<mapsto> bs)\<rparr>))))"
  using assms
  by (auto simp: pathKeyCreate_def StorageEntryJSON_def Storage_Put_def
      split: sum.splits prod.splits option.splits)

lemma no_private_material_is_error:
  "\<not> carries_private e \<Longrightarrow> \<exists>buf err. serializePrivateWithoutSigning lib w e = (buf, Some err)"
  by (simp add: serializePrivateWithoutSigning_write_packets split: prod.splits option.splits)

lemma pathKeyCreate_success:
  assumes "fst (pathKeyCreate lib s d) = Returns (Inr None)"
  shows "putErr s = None
     \<and> (\<exists>buf bs.
          EncodeJSON lib \<lparr>SerializedKey = buf, Exportable = field_exportable d\<rparr> = Inr bs
          \<and> snd (pathKeyCreate lib s d) =
              s\<lparr>entries := (entries s)(''key/'' @ field_name d \<mapsto> bs)\<rparr>
          \<and> (if field_generate d then
                \<not> field_key_bits d < 2048
                \<and> (\<exists>ent. NewEntity lib (field_real_name d) (field_comment d) (field_email d)
                            \<lparr>RSABits = field_key_bits d\<rparr> = Inr ent
                         \<and> SerializePrivate lib ent = (buf, None))
              else
                field_key d \<noteq> []
                \<and> (\<exists>e es. ReadArmoredKeyRing lib (field_key d) = Inr (e # es)
                         \<and> serializePrivateWithoutSigning lib [] e = (buf, None))))"
proof (cases "field_generate d")
  case True
  show ?thesis
  proof (cases "field_key_bits d < 2048")
    case True
    with \<open>field_generate d\<close> assms show ?thesis
      by (simp add: pathKeyCreate_def)
  next
    case False
    with \<open>field_generate d\<close> assms show ?thesis
      by (auto simp: pathKeyCreate_generate split: sum.splits prod.splits option.splits)
  qed
next
  case False
  show ?thesis
  proof (cases "field_key d = []")
    case True
    with \<open>\<not> field_generate d\<close> assms show ?thesis
      by (simp add: pathKeyCreate_def)
  next
    case nonempty: False
    show ?thesis
    proof (cases "ReadArmoredKeyRing lib (field_key d)")
      case (Inl err)
      with False nonempty assms show ?thesis
        by (cases err) (simp add: pathKeyCreate_def)
    next
      case (Inr el)
      show ?thesis
      proof (cases el)
        case Nil
        with Inr False nonempty assms show ?thesis
          by (simp add: pathKeyCreate_def)
      next
        case (Cons e es)
        with Inr False nonempty assms show ?thesis
          by (auto simp: pathKeyCreate_import split: sum.splits prod.splits option.splits)
      qed
    qed
  qed
qed

section \<open>The claims\<close>

lemmas demo_defs =
  demo_lib_def demo_store_def request_def alice_entity_def bob_entity_def

subsection \<open>C1: the order of the packets and the error of the import serializer\<close>

text \<open>
  C1, as the code has it. \<open>serializePrivateWithoutSigning\<close> writes the packets
  of the entity in the fixed order \<open>packet_order\<close>: the primary private key if
  present, then for each identity its user-ID packet and its existing
  self-signature, then for each subkey its private key if present and its
  existing binding signature. It stops at the first packet whose \<open>Serialize\<close>
  reports an error and returns that error. When no packet fails, the buffer
  holds the serializations one after the other, and the function returns an
  error exactly when neither the primary key nor any subkey carries private
  material; without private material it always returns an error. The result
  does not depend on the library's signing serializer \<open>SerializePrivate\<close>.
\<close>

theorem serializePrivateWithoutSigning_packet_order:
  "serializePrivateWithoutSigning lib w e =
     (case write_packets lib w (packet_order e) of
        (w', Some err) \<Rightarrow> (w', Some err)
      | (w', None) \<Rightarrow>
          (w', if carries_private e then None
               else Some (Error ''No private key has been found'')))
   \<and> (list_all (\<lambda>p. snd (packet_Serialize lib p) = None) (packet_order e) \<longrightarrow>
        fst (serializePrivateWithoutSigning lib w e) =
          w @ concat (map (\<lambda>p. fst (packet_Serialize lib p)) (packet_order e))
        \<and> (snd (serializePrivateWithoutSigning lib w e) \<noteq> None) = (\<not> carries_private e))
   \<and> (\<not> carries_private e \<longrightarrow> snd (serializePrivateWithoutSigning lib w e) \<noteq> None)
   \<and> serializePrivateWithoutSigning (lib\<lparr>SerializePrivate := g\<rparr>) w e =
       serializePrivateWithoutSigning lib w e"
proof (intro conjI impI)
  show "serializePrivateWithoutSigning lib w e =
     (case write_packets lib w (packet_order e) of
        (w', Some err) \<Rightarrow> (w', Some err)
      | (w', None) \<Rightarrow>
          (w', if carries_private e then None
               else Some (Error ''No private key has been found'')))"
    by (rule serializePrivateWithoutSigning_write_packets)
next
  assume "list_all (\<lambda>p. snd (packet_Serialize lib p) = None) (packet_order e)"
  then have all: "write_packets lib w (packet_order e) =
      (w @ concat (map (\<lambda>p. fst (packet_Serialize lib p)) (packet_order e)), None)"
    by (rule write_packets_all_written)
  show "fst (serializePrivateWithoutSigning lib w e) =
          w @ concat (map (\<lambda>p. fst (packet_Serialize lib p)) (packet_order e))"
    by (simp add: serializePrivateWithoutSigning_write_packets all)
  show "(snd (serializePrivateWithoutSigning lib w e) \<noteq> None) = (\<not> carries_private e)"
    by (simp add: serializePrivateWithoutSigning_write_packets all)
next
  assume "\<not> carries_private e"
  then show "snd (serializePrivateWithoutSigning lib w e) \<noteq> None"
    by (simp add: serializePrivateWithoutSigning_write_packets split: prod.splits option.splits)
next
  show "serializePrivateWithoutSigning (lib\<lparr>SerializePrivate := g\<rparr>) w e =
       serializePrivateWithoutSigning lib w e"
    by (rule serializePrivateWithoutSigning_cong) simp_all
qed

theorem serializePrivateWithoutSigning_packet_order_witness:
  "list_all (\<lambda>p. snd (packet_Serialize demo_lib p) = None) (packet_order alice_entity)
   \<and> carries_private alice_entity
   \<and> serializePrivateWithoutSigning demo_lib [] alice_entity =
       ([0x95, 0x01, 0xB4, 0x05, 0x89, 0x10, 0x9D, 0x02, 0x89, 0x18], None)
   \<and> \<not> carries_private bob_entity
   \<and> snd (serializePrivateWithoutSigning demo_lib [] bob_entity) \<noteq> None"
proof -
  have h: "list_all (\<lambda>p. snd (packet_Serialize demo_lib p) = None) (packet_order alice_entity)"
    by (simp add: demo_defs packet_order_def private_key_packets_def identity_packets_def
        subkey_packets_def)
  have p: "carries_private alice_entity"
    by (simp add: carries_private_def alice_entity_def)
  have q: "\<not> carries_private bob_entity"
    by (simp add: carries_private_def bob_entity_def)
  have o: "concat (map (\<lambda>p. fst (packet_Serialize demo_lib p)) (packet_order alice_entity)) =
      [0x95, 0x01, 0xB4, 0x05, 0x89, 0x10, 0x9D, 0x02, 0x89, 0x18]"
    by (simp add: demo_defs packet_order_def private_key_packets_def identity_packets_def
        subkey_packets_def)
  note a = serializePrivateWithoutSigning_packet_order
    [of demo_lib "[]" alice_entity "SerializePrivate demo_lib"]
  note b = serializePrivateWithoutSigning_packet_order
    [of demo_lib "[]" bob_entity "SerializePrivate demo_lib"]
  from a h have a1: "fst (serializePrivateWithoutSigning demo_lib [] alice_entity) =
      [] @ concat (map (\<lambda>p. fst (packet_Serialize demo_lib p)) (packet_order alice_entity))"
    and a2: "(snd (serializePrivateWithoutSigning demo_lib [] alice_entity) \<noteq> None) =
      (\<not> carries_private alice_entity)"
    by blast+
  from b q have b1: "snd (serializePrivateWithoutSigning demo_lib [] bob_entity) \<noteq> None"
    by blast
  have "fst (serializePrivateWithoutSigning demo_lib [] alice_entity) =
      [0x95, 0x01, 0xB4, 0x05, 0x89, 0x10, 0x9D, 0x02, 0x89, 0x18]"
    unfolding a1 o by simp
  moreover have "snd (serializePrivateWithoutSigning demo_lib [] alice_entity) = None"
    using a2 p by simp
  moreover note b1
  ultimately show ?thesis
    using h p q by (simp add: prod_eq_iff)
qed

text \<open>
  C1, as the claim states it, fails: an entity whose primary key carries
  private material, with a private-key packet whose \<open>Serialize\<close> reports an
  error (line 117), makes the function return that error (line 119).
\<close>

theorem serializePrivateWithoutSigning_error_despite_private_key:
  "PrivateKey alice_entity = Some [0x95, 0x01]
   \<and> carries_private alice_entity
   \<and> serializePrivateWithoutSigning locked_lib [] alice_entity =
       ([], Some (Error ''unknown private key type''))"
  by (simp add: serializePrivateWithoutSigning_def Serialize_to_def carries_private_def
      locked_lib_def demo_defs)


subsection \<open>C2: only the first entity of a key ring is used\<close>

text \<open>
  C2. When the parser returns a key ring \<open>e # es\<close>, \<open>entity\<close> returns \<open>e\<close>. The
  read of such a stored record answers from \<open>e\<close>: it returns the error of the
  public serialization of \<open>e\<close>, or the payload with the fingerprint and the
  armored public key of \<open>e\<close>. The import of such an armored key
  (\<open>generate = false\<close>) works on \<open>e\<close>: it returns the serialization error
  response when \<open>serializePrivateWithoutSigning\<close> fails on \<open>e\<close>, and otherwise
  encodes and stores the serialization of \<open>e\<close> under the name. In both, the
  later entities \<open>es\<close> appear nowhere: the result and the store are those of
  the key ring \<open>[e]\<close>, and no error is raised for them.
\<close>

theorem only_first_entity_is_used:
  "(ReadKeyRing lib (SerializedKey entry) = Inr (e # es) \<longrightarrow>
      entity lib entry = Returns (Inr e))
   \<and> (key lib s (field_name d) = Inr (Some entry)
        \<and> ReadKeyRing lib (SerializedKey entry) = Inr (e # es) \<longrightarrow>
      pathKeyRead lib s d =
        (case Entity_Serialize lib [] e of
           (buf, Some err) \<Rightarrow> Returns (Inl err)
         | (buf, None) \<Rightarrow>
             Returns (Inr (Some (Response
               [''fingerprint'' \<mapsto> VString (EncodeToString (Fingerprint (PrimaryKey e))),
                ''public_key'' \<mapsto> VString (armor_Encode lib (PublicKeyType lib) buf),
                ''exportable'' \<mapsto> VBool (Exportable entry)]))))
      \<and> pathKeyRead lib s d = pathKeyRead (lib\<lparr>ReadKeyRing := \<lambda>_. Inr [e]\<rparr>) s d)
   \<and> (\<not> field_generate d \<and> field_key d \<noteq> []
        \<and> ReadArmoredKeyRing lib (field_key d) = Inr (e # es) \<longrightarrow>
      pathKeyCreate lib s d =
        (case serializePrivateWithoutSigning lib [] e of
           (buf, Some err) \<Rightarrow>
             (Returns (Inr (Some (ErrorResponse
                ''the key could not be serialized, is a private key present?''))), s)
         | (buf, None) \<Rightarrow>
             (case EncodeJSON lib \<lparr>SerializedKey = buf, Exportable = field_exportable d\<rparr> of
                Inl err \<Rightarrow> (Returns (Inl err), s)
              | Inr bs \<Rightarrow>
                  (case putErr s of
                     Some err \<Rightarrow> (Returns (Inl err), s)
                   | None \<Rightarrow>
                       (Returns (Inr None),
                        s\<lparr>entries := (entries s)(''key/'' @ field_name d \<mapsto> bs)\<rparr>)))))
   \<and> (\<not> field_generate d \<and> ReadArmoredKeyRing lib (field_key d) = Inr (e # es) \<longrightarrow>
      pathKeyCreate lib s d = pathKeyCreate (lib\<lparr>ReadArmoredKeyRing := \<lambda>_. Inr [e]\<rparr>) s d)"
proof (intro conjI impI)
  assume "ReadKeyRing lib (SerializedKey entry) = Inr (e # es)"
  then show "entity lib entry = Returns (Inr e)"
    by (simp add: entity_def)
next
  assume "key lib s (field_name d) = Inr (Some entry)
        \<and> ReadKeyRing lib (SerializedKey entry) = Inr (e # es)"
  then show "pathKeyRead lib s d =
        (case Entity_Serialize lib [] e of
           (buf, Some err) \<Rightarrow> Returns (Inl err)
         | (buf, None) \<Rightarrow>
             Returns (Inr (Some (Response
               [''fingerprint'' \<mapsto> VString (EncodeToString (Fingerprint (PrimaryKey e))),
                ''public_key'' \<mapsto> VString (armor_Encode lib (PublicKeyType lib) buf),
                ''exportable'' \<mapsto> VBool (Exportable entry)]))))"
    by (simp add: pathKeyRead_def entity_def)
next
  let ?lib = "lib\<lparr>ReadKeyRing := \<lambda>_. Inr [e]\<rparr>"
  assume a: "key lib s (field_name d) = Inr (Some entry)
        \<and> ReadKeyRing lib (SerializedKey entry) = Inr (e # es)"
  have k: "key ?lib s (field_name d) = key lib s (field_name d)"
    by (rule key_cong) simp
  have s: "Entity_Serialize ?lib [] e = Entity_Serialize lib [] e"
    by (rule Entity_Serialize_cong) simp_all
  show "pathKeyRead lib s d = pathKeyRead ?lib s d"
    using a by (simp add: pathKeyRead_def k s entity_def)
next
  assume "\<not> field_generate d \<and> field_key d \<noteq> []
        \<and> ReadArmoredKeyRing lib (field_key d) = Inr (e # es)"
  then show "pathKeyCreate lib s d =
        (case serializePrivateWithoutSigning lib [] e of
           (buf, Some err) \<Rightarrow>
             (Returns (Inr (Some (ErrorResponse
                ''the key could not be serialized, is a private key present?''))), s)
         | (buf, None) \<Rightarrow>
             (case EncodeJSON lib \<lparr>SerializedKey = buf, Exportable = field_exportable d\<rparr> of
                Inl err \<Rightarrow> (Returns (Inl err), s)
              | Inr bs \<Rightarrow>
                  (case putErr s of
                     Some err \<Rightarrow> (Returns (Inl err), s)
                   | None \<Rightarrow>
                       (Returns (Inr None),
                        s\<lparr>entries := (entries s)(''key/'' @ field_name d \<mapsto> bs)\<rparr>))))"
    using pathKeyCreate_import [of d lib e es s] by blast
next
  let ?lib = "lib\<lparr>ReadArmoredKeyRing := \<lambda>_. Inr [e]\<rparr>"
  assume a: "\<not> field_generate d \<and> ReadArmoredKeyRing lib (field_key d) = Inr (e # es)"
  have s: "serializePrivateWithoutSigning ?lib [] e = serializePrivateWithoutSigning lib [] e"
    by (rule serializePrivateWithoutSigning_cong) simp_all
  show "pathKeyCreate lib s d = pathKeyCreate ?lib s d"
    using a
    by (simp add: pathKeyCreate_def s StorageEntryJSON_def
        cong: sum.case_cong prod.case_cong option.case_cong)
qed

theorem only_first_entity_is_used_witness:
  "ReadKeyRing demo_lib (SerializedKey \<lparr>SerializedKey = [0x95, 0x01], Exportable = True\<rparr>) =
     Inr [alice_entity, bob_entity]
   \<and> key demo_lib demo_store (field_name (request ''alice'' False 2048 ''two keys'')) =
       Inr (Some \<lparr>SerializedKey = [0x95, 0x01], Exportable = True\<rparr>)
   \<and> \<not> field_generate (request ''alice'' False 2048 ''two keys'')
   \<and> field_key (request ''alice'' False 2048 ''two keys'') \<noteq> []
   \<and> ReadArmoredKeyRing demo_lib (field_key (request ''alice'' False 2048 ''two keys'')) =
       Inr [alice_entity, bob_entity]
   \<and> entity demo_lib \<lparr>SerializedKey = [0x95, 0x01], Exportable = True\<rparr> =
       Returns (Inr alice_entity)
   \<and> pathKeyRead demo_lib demo_store (request ''alice'' False 2048 ''two keys'') =
       Returns (Inr (Some (Response
         [''fingerprint'' \<mapsto> VString ''ab0102030405060708090a0b0c0d0e0f107f80ff'',
          ''public_key'' \<mapsto>
             VString ''BEGIN PGP PUBLIC KEY BLOCK hex 9901b4058910b9028918'',
          ''exportable'' \<mapsto> VBool True])))
   \<and> pathKeyRead demo_lib demo_store (request ''alice'' False 2048 ''two keys'') =
       pathKeyRead (demo_lib\<lparr>ReadKeyRing := \<lambda>_. Inr [alice_entity]\<rparr>) demo_store
         (request ''alice'' False 2048 ''two keys'')
   \<and> pathKeyCreate demo_lib demo_store (request ''alice'' False 2048 ''two keys'') =
       (Returns (Inr None),
        demo_store\<lparr>entries := (entries demo_store)
          (''key/alice'' \<mapsto> [1, 0x95, 0x01, 0xB4, 0x05, 0x89, 0x10, 0x9D, 0x02, 0x89, 0x18])\<rparr>)
   \<and> pathKeyCreate demo_lib demo_store (request ''alice'' False 2048 ''two keys'') =
       pathKeyCreate (demo_lib\<lparr>ReadArmoredKeyRing := \<lambda>_. Inr [alice_entity]\<rparr>) demo_store
         (request ''alice'' False 2048 ''two keys'')"
proof -
  have h1: "ReadKeyRing demo_lib
      (SerializedKey \<lparr>SerializedKey = [0x95, 0x01], Exportable = True\<rparr>) =
      Inr [alice_entity, bob_entity]"
    by (simp add: demo_lib_def)
  have h2: "key demo_lib demo_store (field_name (request ''alice'' False 2048 ''two keys'')) =
      Inr (Some \<lparr>SerializedKey = [0x95, 0x01], Exportable = True\<rparr>)"
    by (simp add: key_def Storage_Get_def demo_lib_def demo_store_def request_def)
  have h3: "\<not> field_generate (request ''alice'' False 2048 ''two keys'')"
    by (simp add: request_def)
  have h4: "field_key (request ''alice'' False 2048 ''two keys'') \<noteq> []"
    by (simp add: request_def)
  have h5: "ReadArmoredKeyRing demo_lib
      (field_key (request ''alice'' False 2048 ''two keys'')) = Inr [alice_entity, bob_entity]"
    by (simp add: demo_lib_def request_def)
  note U = only_first_entity_is_used [where lib = demo_lib
      and entry = "\<lparr>SerializedKey = [0x95, 0x01], Exportable = True\<rparr>"
      and e = alice_entity and es = "[bob_entity]" and s = demo_store
      and d = "request ''alice'' False 2048 ''two keys''"]
  note U1 = U [THEN conjunct1, rule_format, OF h1]
  note U2 = U [THEN conjunct2, THEN conjunct1, rule_format, OF conjI [OF h2 h1]]
  note U3 = U [THEN conjunct2, THEN conjunct2, THEN conjunct1, rule_format,
      OF conjI [OF h3 conjI [OF h4 h5]]]
  note U4 = U [THEN conjunct2, THEN conjunct2, THEN conjunct2, rule_format,
      OF conjI [OF h3 h5]]
  have pub: "Entity_Serialize demo_lib [] alice_entity =
      ([0x99, 0x01, 0xB4, 0x05, 0x89, 0x10, 0xB9, 0x02, 0x89, 0x18], None)"
    by (simp add: Entity_Serialize_def Serialize_to_def demo_lib_def alice_entity_def)
  have fp: "EncodeToString (Fingerprint (PrimaryKey alice_entity)) =
      ''ab0102030405060708090a0b0c0d0e0f107f80ff''"
    by (simp add: alice_entity_def hextable_def)
  have ar: "armor_Encode demo_lib (PublicKeyType demo_lib)
      [0x99, 0x01, 0xB4, 0x05, 0x89, 0x10, 0xB9, 0x02, 0x89, 0x18] =
      ''BEGIN PGP PUBLIC KEY BLOCK hex 9901b4058910b9028918''"
    by (simp add: demo_lib_def hextable_def)
  have r: "pathKeyRead demo_lib demo_store (request ''alice'' False 2048 ''two keys'') =
      Returns (Inr (Some (Response
        [''fingerprint'' \<mapsto> VString ''ab0102030405060708090a0b0c0d0e0f107f80ff'',
         ''public_key'' \<mapsto>
            VString ''BEGIN PGP PUBLIC KEY BLOCK hex 9901b4058910b9028918'',
         ''exportable'' \<mapsto> VBool True])))"
    using U2 [THEN conjunct1] unfolding pub fp by (simp add: ar)
  have priv: "serializePrivateWithoutSigning demo_lib [] alice_entity =
      ([0x95, 0x01, 0xB4, 0x05, 0x89, 0x10, 0x9D, 0x02, 0x89, 0x18], None)"
    by (simp add: serializePrivateWithoutSigning_def Serialize_to_def demo_lib_def
        alice_entity_def)
  have ej: "EncodeJSON demo_lib
      \<lparr>SerializedKey = [0x95, 0x01, 0xB4, 0x05, 0x89, 0x10, 0x9D, 0x02, 0x89, 0x18],
       Exportable = field_exportable (request ''alice'' False 2048 ''two keys'')\<rparr> =
      Inr [1, 0x95, 0x01, 0xB4, 0x05, 0x89, 0x10, 0x9D, 0x02, 0x89, 0x18]"
    by (simp add: demo_lib_def request_def)
  have pe: "putErr demo_store = None"
    by (simp add: demo_store_def)
  have fn: "field_name (request ''alice'' False 2048 ''two keys'') = ''alice''"
    by (simp add: request_def)
  have c: "pathKeyCreate demo_lib demo_store (request ''alice'' False 2048 ''two keys'') =
      (Returns (Inr None),
       demo_store\<lparr>entries := (entries demo_store)
         (''key/alice'' \<mapsto> [1, 0x95, 0x01, 0xB4, 0x05, 0x89, 0x10, 0x9D, 0x02, 0x89, 0x18])\<rparr>)"
    using U3 unfolding priv by (simp add: ej pe fn)
  show ?thesis
    by (intro conjI h1 h2 h3 h4 h5 U1 r U2 [THEN conjunct2] c U4)
qed

subsection \<open>C3: the size floor of generated keys\<close>

text \<open>
  C3. A create request with \<open>generate = true\<close> and \<open>key_bits < 2048\<close> returns the
  error response for undersized keys, as a response and not as a Go error,
  whatever the library does (no key is generated) and with the store as it
  was (nothing is written). With \<open>key_bits = 2048\<close> the check passes: that
  response is not returned, and the result is that of the generation, so an
  error of \<open>NewEntity\<close> is returned as it is.
\<close>

theorem undersized_key_is_rejected:
  "(field_generate d \<and> field_key_bits d < 2048 \<longrightarrow>
      pathKeyCreate lib s d =
        (Returns (Inr (Some (ErrorResponse ''Keys < 2048 bits are unsafe and not supported''))), s))
   \<and> (field_generate d \<and> field_key_bits d = 2048 \<longrightarrow>
      fst (pathKeyCreate lib s d) \<noteq>
        Returns (Inr (Some (ErrorResponse ''Keys < 2048 bits are unsafe and not supported'')))
      \<and> (NewEntity lib (field_real_name d) (field_comment d) (field_email d)
            \<lparr>RSABits = 2048\<rparr> = Inl err \<longrightarrow>
          pathKeyCreate lib s d = (Returns (Inl err), s)))"
  by (auto simp: pathKeyCreate_def Storage_Put_def StorageEntryJSON_def
      split: sum.splits prod.splits option.splits)

theorem undersized_key_is_rejected_witness:
  "field_generate (request ''carol'' True 2047 []) \<and> field_key_bits (request ''carol'' True 2047 []) < 2048
   \<and> pathKeyCreate demo_lib demo_store (request ''carol'' True 2047 []) =
       (Returns (Inr (Some (ErrorResponse ''Keys < 2048 bits are unsafe and not supported''))),
        demo_store)
   \<and> field_generate (request ''carol'' True 2048 [])
   \<and> field_key_bits (request ''carol'' True 2048 []) = 2048
   \<and> fst (pathKeyCreate demo_lib demo_store (request ''carol'' True 2048 [])) \<noteq>
       Returns (Inr (Some (ErrorResponse ''Keys < 2048 bits are unsafe and not supported'')))
   \<and> fst (pathKeyCreate demo_lib demo_store (request ''carol'' True 2048 [])) = Returns (Inr None)
   \<and> entries (snd (pathKeyCreate demo_lib demo_store (request ''carol'' True 2048 [])))
       ''key/carol'' = Some [1, 0x95, 0x01]
   \<and> NewEntity (demo_lib\<lparr>NewEntity := \<lambda>name comment email config. Inl (Error ''no entropy'')\<rparr>)
         (field_real_name (request ''carol'' True 2048 []))
         (field_comment (request ''carol'' True 2048 []))
         (field_email (request ''carol'' True 2048 [])) \<lparr>RSABits = 2048\<rparr> =
       Inl (Error ''no entropy'')
   \<and> pathKeyCreate (demo_lib\<lparr>NewEntity := \<lambda>name comment email config. Inl (Error ''no entropy'')\<rparr>)
         demo_store (request ''carol'' True 2048 []) =
       (Returns (Inl (Error ''no entropy'')), demo_store)"
proof -
  have h1: "field_generate (request ''carol'' True 2047 [])
      \<and> field_key_bits (request ''carol'' True 2047 []) < 2048"
    by (simp add: request_def)
  have h2: "field_generate (request ''carol'' True 2048 [])
      \<and> field_key_bits (request ''carol'' True 2048 []) = 2048"
    by (simp add: request_def)
  have e1: "fst (pathKeyCreate demo_lib demo_store (request ''carol'' True 2048 [])) =
      Returns (Inr None)"
    by (simp add: pathKeyCreate_def StorageEntryJSON_def Storage_Put_def Serialize_to_def
        demo_lib_def demo_store_def request_def)
  have e2: "entries (snd (pathKeyCreate demo_lib demo_store (request ''carol'' True 2048 [])))
      ''key/carol'' = Some [1, 0x95, 0x01]"
    by (simp add: pathKeyCreate_def StorageEntryJSON_def Storage_Put_def Serialize_to_def
        demo_lib_def demo_store_def request_def)
  have h3: "NewEntity (demo_lib\<lparr>NewEntity := \<lambda>name comment email config. Inl (Error ''no entropy'')\<rparr>)
      (field_real_name (request ''carol'' True 2048 []))
      (field_comment (request ''carol'' True 2048 []))
      (field_email (request ''carol'' True 2048 [])) \<lparr>RSABits = 2048\<rparr> =
      Inl (Error ''no entropy'')"
    by simp
  show ?thesis
    using h1 h2 h3 e1 e2
      undersized_key_is_rejected [of "request ''carol'' True 2047 []" demo_lib demo_store]
      undersized_key_is_rejected [of "request ''carol'' True 2048 []" demo_lib demo_store]
      undersized_key_is_rejected [of "request ''carol'' True 2048 []"
        "demo_lib\<lparr>NewEntity := \<lambda>name comment email config. Inl (Error ''no entropy'')\<rparr>"
        demo_store "Error ''no entropy''"]
    by blast
qed

subsection \<open>C4: an import needs a key\<close>

text \<open>
  C4. A create request with \<open>generate = false\<close> and the empty string as \<open>key\<close>
  returns the error response for the missing key, whatever the library does
  (nothing is parsed) and with the store as it was (nothing is written).
\<close>

theorem missing_key_is_rejected:
  "\<not> field_generate d \<Longrightarrow> field_key d = [] \<Longrightarrow>
     pathKeyCreate lib s d =
       (Returns (Inr (Some (ErrorResponse ''the key value is required for generated keys''))), s)"
  by (simp add: pathKeyCreate_def)

theorem missing_key_is_rejected_witness:
  "\<not> field_generate (request ''carol'' False 2048 [])
   \<and> field_key (request ''carol'' False 2048 []) = []
   \<and> pathKeyCreate demo_lib demo_store (request ''carol'' False 2048 []) =
       (Returns (Inr (Some (ErrorResponse ''the key value is required for generated keys''))),
        demo_store)"
proof -
  have h1: "\<not> field_generate (request ''carol'' False 2048 [])"
    by (simp add: request_def)
  have h2: "field_key (request ''carol'' False 2048 []) = []"
    by (simp add: request_def)
  show ?thesis
    using h1 h2 missing_key_is_rejected [OF h1 h2, of demo_lib demo_store] by simp
qed

subsection \<open>C5: a failed create writes nothing\<close>

text \<open>
  C5. Create is all-or-nothing. Each failing step makes \<open>pathKeyCreate\<close> return
  its failure with the store as it was: an undersized key, an error of
  \<open>NewEntity\<close>, an error of \<open>SerializePrivate\<close>, a missing key, an armored key
  that does not parse, a key ring without entities (a panic), an entity without
  private material or whose serialization fails, and an error of the JSON
  encoding of the record, on either path. Whenever the result is not the
  success \<open>(nil, nil)\<close> the store is as it was, and when \<open>Put\<close> itself cannot
  fail the same request gives the same failure on any other store \<open>t\<close>, so it
  was decided before the store was reached. Conversely the success
  \<open>(nil, nil)\<close> is returned only when no step failed, and then the store holds
  the encoded record of the generated or imported key under the name.
\<close>

theorem failed_create_leaves_store_unchanged:
  "(field_generate d \<and> field_key_bits d < 2048 \<longrightarrow>
      pathKeyCreate lib s d =
        (Returns (Inr (Some (ErrorResponse ''Keys < 2048 bits are unsafe and not supported''))), s))
   \<and> (field_generate d \<and> \<not> field_key_bits d < 2048
        \<and> NewEntity lib (field_real_name d) (field_comment d) (field_email d)
              \<lparr>RSABits = field_key_bits d\<rparr> = Inl err \<longrightarrow>
      pathKeyCreate lib s d = (Returns (Inl err), s))
   \<and> (field_generate d \<and> \<not> field_key_bits d < 2048
        \<and> NewEntity lib (field_real_name d) (field_comment d) (field_email d)
              \<lparr>RSABits = field_key_bits d\<rparr> = Inr ent
        \<and> SerializePrivate lib ent = (buf, Some err) \<longrightarrow>
      pathKeyCreate lib s d = (Returns (Inl err), s))
   \<and> (field_generate d \<and> \<not> field_key_bits d < 2048
        \<and> NewEntity lib (field_real_name d) (field_comment d) (field_email d)
              \<lparr>RSABits = field_key_bits d\<rparr> = Inr ent
        \<and> SerializePrivate lib ent = (buf, None)
        \<and> EncodeJSON lib \<lparr>SerializedKey = buf, Exportable = field_exportable d\<rparr> = Inl err \<longrightarrow>
      pathKeyCreate lib s d = (Returns (Inl err), s))
   \<and> (\<not> field_generate d \<and> field_key d = [] \<longrightarrow>
      pathKeyCreate lib s d =
        (Returns (Inr (Some (ErrorResponse ''the key value is required for generated keys''))), s))
   \<and> (\<not> field_generate d \<and> field_key d \<noteq> []
        \<and> ReadArmoredKeyRing lib (field_key d) = Inl (Error msg) \<longrightarrow>
      pathKeyCreate lib s d = (Returns (Inr (Some (ErrorResponse msg))), s))
   \<and> (\<not> field_generate d \<and> field_key d \<noteq> []
        \<and> ReadArmoredKeyRing lib (field_key d) = Inr [] \<longrightarrow>
      pathKeyCreate lib s d = (Panics IndexOutOfRange, s))
   \<and> (\<not> field_generate d \<and> field_key d \<noteq> []
        \<and> ReadArmoredKeyRing lib (field_key d) = Inr (e # es)
        \<and> \<not> carries_private e \<longrightarrow>
      pathKeyCreate lib s d =
        (Returns (Inr (Some (ErrorResponse
           ''the key could not be serialized, is a private key present?''))), s))
   \<and> (\<not> field_generate d \<and> field_key d \<noteq> []
        \<and> ReadArmoredKeyRing lib (field_key d) = Inr (e # es)
        \<and> serializePrivateWithoutSigning lib [] e = (buf, Some err) \<longrightarrow>
      pathKeyCreate lib s d =
        (Returns (Inr (Some (ErrorResponse
           ''the key could not be serialized, is a private key present?''))), s))
   \<and> (\<not> field_generate d \<and> field_key d \<noteq> []
        \<and> ReadArmoredKeyRing lib (field_key d) = Inr (e # es)
        \<and> serializePrivateWithoutSigning lib [] e = (buf, None)
        \<and> EncodeJSON lib \<lparr>SerializedKey = buf, Exportable = field_exportable d\<rparr> = Inl err \<longrightarrow>
      pathKeyCreate lib s d = (Returns (Inl err), s))
   \<and> (fst (pathKeyCreate lib s d) \<noteq> Returns (Inr None) \<longrightarrow>
      snd (pathKeyCreate lib s d) = s
      \<and> (putErr s = None \<longrightarrow> pathKeyCreate lib t d = (fst (pathKeyCreate lib s d), t)))
   \<and> (fst (pathKeyCreate lib s d) = Returns (Inr None) \<longrightarrow>
      putErr s = None
      \<and> (\<exists>key_bytes bs.
           EncodeJSON lib \<lparr>SerializedKey = key_bytes, Exportable = field_exportable d\<rparr> = Inr bs
           \<and> snd (pathKeyCreate lib s d) =
               s\<lparr>entries := (entries s)(''key/'' @ field_name d \<mapsto> bs)\<rparr>
           \<and> (if field_generate d then
                 \<not> field_key_bits d < 2048
                 \<and> (\<exists>ent. NewEntity lib (field_real_name d) (field_comment d) (field_email d)
                             \<lparr>RSABits = field_key_bits d\<rparr> = Inr ent
                          \<and> SerializePrivate lib ent = (key_bytes, None))
               else
                 field_key d \<noteq> []
                 \<and> (\<exists>e es. ReadArmoredKeyRing lib (field_key d) = Inr (e # es)
                          \<and> serializePrivateWithoutSigning lib [] e = (key_bytes, None)))))"
proof (intro conjI impI)
  assume "field_generate d \<and> field_key_bits d < 2048"
  then show "pathKeyCreate lib s d =
      (Returns (Inr (Some (ErrorResponse ''Keys < 2048 bits are unsafe and not supported''))), s)"
    by (simp add: pathKeyCreate_def)
next
  assume "field_generate d \<and> \<not> field_key_bits d < 2048
      \<and> NewEntity lib (field_real_name d) (field_comment d) (field_email d)
            \<lparr>RSABits = field_key_bits d\<rparr> = Inl err"
  then show "pathKeyCreate lib s d = (Returns (Inl err), s)"
    by (simp add: pathKeyCreate_generate)
next
  assume "field_generate d \<and> \<not> field_key_bits d < 2048
      \<and> NewEntity lib (field_real_name d) (field_comment d) (field_email d)
            \<lparr>RSABits = field_key_bits d\<rparr> = Inr ent
      \<and> SerializePrivate lib ent = (buf, Some err)"
  then show "pathKeyCreate lib s d = (Returns (Inl err), s)"
    by (simp add: pathKeyCreate_generate)
next
  assume "field_generate d \<and> \<not> field_key_bits d < 2048
      \<and> NewEntity lib (field_real_name d) (field_comment d) (field_email d)
            \<lparr>RSABits = field_key_bits d\<rparr> = Inr ent
      \<and> SerializePrivate lib ent = (buf, None)
      \<and> EncodeJSON lib \<lparr>SerializedKey = buf, Exportable = field_exportable d\<rparr> = Inl err"
  then show "pathKeyCreate lib s d = (Returns (Inl err), s)"
    by (simp add: pathKeyCreate_generate)
next
  assume "\<not> field_generate d \<and> field_key d = []"
  then show "pathKeyCreate lib s d =
      (Returns (Inr (Some (ErrorResponse ''the key value is required for generated keys''))), s)"
    by (simp add: pathKeyCreate_def)
next
  assume "\<not> field_generate d \<and> field_key d \<noteq> []
      \<and> ReadArmoredKeyRing lib (field_key d) = Inl (Error msg)"
  then show "pathKeyCreate lib s d = (Returns (Inr (Some (ErrorResponse msg))), s)"
    by (simp add: pathKeyCreate_def)
next
  assume "\<not> field_generate d \<and> field_key d \<noteq> []
      \<and> ReadArmoredKeyRing lib (field_key d) = Inr []"
  then show "pathKeyCreate lib s d = (Panics IndexOutOfRange, s)"
    by (simp add: pathKeyCreate_def)
next
  assume a: "\<not> field_generate d \<and> field_key d \<noteq> []
      \<and> ReadArmoredKeyRing lib (field_key d) = Inr (e # es)
      \<and> \<not> carries_private e"
  then obtain b x where "serializePrivateWithoutSigning lib [] e = (b, Some x)"
    using no_private_material_is_error [of e lib "[]"] by blast
  with a show "pathKeyCreate lib s d =
      (Returns (Inr (Some (ErrorResponse
         ''the key could not be serialized, is a private key present?''))), s)"
    by (simp add: pathKeyCreate_import)
next
  assume "\<not> field_generate d \<and> field_key d \<noteq> []
      \<and> ReadArmoredKeyRing lib (field_key d) = Inr (e # es)
      \<and> serializePrivateWithoutSigning lib [] e = (buf, Some err)"
  then show "pathKeyCreate lib s d =
      (Returns (Inr (Some (ErrorResponse
         ''the key could not be serialized, is a private key present?''))), s)"
    by (simp add: pathKeyCreate_import)
next
  assume "\<not> field_generate d \<and> field_key d \<noteq> []
      \<and> ReadArmoredKeyRing lib (field_key d) = Inr (e # es)
      \<and> serializePrivateWithoutSigning lib [] e = (buf, None)
      \<and> EncodeJSON lib \<lparr>SerializedKey = buf, Exportable = field_exportable d\<rparr> = Inl err"
  then show "pathKeyCreate lib s d = (Returns (Inl err), s)"
    by (simp add: pathKeyCreate_import)
next
  assume "fst (pathKeyCreate lib s d) \<noteq> Returns (Inr None)"
  then show "snd (pathKeyCreate lib s d) = s"
    by (rule pathKeyCreate_failure_keeps_store)
next
  assume "fst (pathKeyCreate lib s d) \<noteq> Returns (Inr None)" and "putErr s = None"
  then show "pathKeyCreate lib t d = (fst (pathKeyCreate lib s d), t)"
    by (rule pathKeyCreate_failure_before_Put)
next
  assume "fst (pathKeyCreate lib s d) = Returns (Inr None)"
  then show "putErr s = None"
    using pathKeyCreate_success [of lib s d] by blast
next
  assume "fst (pathKeyCreate lib s d) = Returns (Inr None)"
  then show "\<exists>key_bytes bs.
       EncodeJSON lib \<lparr>SerializedKey = key_bytes, Exportable = field_exportable d\<rparr> = Inr bs
       \<and> snd (pathKeyCreate lib s d) =
           s\<lparr>entries := (entries s)(''key/'' @ field_name d \<mapsto> bs)\<rparr>
       \<and> (if field_generate d then
             \<not> field_key_bits d < 2048
             \<and> (\<exists>ent. NewEntity lib (field_real_name d) (field_comment d) (field_email d)
                         \<lparr>RSABits = field_key_bits d\<rparr> = Inr ent
                      \<and> SerializePrivate lib ent = (key_bytes, None))
           else
             field_key d \<noteq> []
             \<and> (\<exists>e es. ReadArmoredKeyRing lib (field_key d) = Inr (e # es)
                      \<and> serializePrivateWithoutSigning lib [] e = (key_bytes, None)))"
    using pathKeyCreate_success [of lib s d] by blast
qed

theorem failed_create_leaves_store_unchanged_witness:
  "field_generate (request ''carol'' True 2047 [])
   \<and> field_key_bits (request ''carol'' True 2047 []) < 2048
   \<and> pathKeyCreate demo_lib demo_store (request ''carol'' True 2047 []) =
       (Returns (Inr (Some (ErrorResponse ''Keys < 2048 bits are unsafe and not supported''))),
        demo_store)
   \<and> NewEntity demo_lib (field_real_name (request ''carol'' True 8192 []))
         (field_comment (request ''carol'' True 8192 []))
         (field_email (request ''carol'' True 8192 []))
         \<lparr>RSABits = field_key_bits (request ''carol'' True 8192 [])\<rparr> =
       Inl (Error ''key generation failed'')
   \<and> pathKeyCreate demo_lib demo_store (request ''carol'' True 8192 []) =
       (Returns (Inl (Error ''key generation failed'')), demo_store)
   \<and> SerializePrivate (demo_lib\<lparr>SerializePrivate := \<lambda>e. ([0x95], Some (Error ''short write''))\<rparr>)
         alice_entity = ([0x95], Some (Error ''short write''))
   \<and> pathKeyCreate (demo_lib\<lparr>SerializePrivate := \<lambda>e. ([0x95], Some (Error ''short write''))\<rparr>)
         demo_store (request ''carol'' True 2048 []) =
       (Returns (Inl (Error ''short write'')), demo_store)
   \<and> EncodeJSON (demo_lib\<lparr>EncodeJSON := \<lambda>k. Inl (Error ''json: unsupported value'')\<rparr>)
         \<lparr>SerializedKey = [0x95, 0x01],
          Exportable = field_exportable (request ''carol'' True 2048 [])\<rparr> =
       Inl (Error ''json: unsupported value'')
   \<and> pathKeyCreate (demo_lib\<lparr>EncodeJSON := \<lambda>k. Inl (Error ''json: unsupported value'')\<rparr>)
         demo_store (request ''carol'' True 2048 []) =
       (Returns (Inl (Error ''json: unsupported value'')), demo_store)
   \<and> field_key (request ''carol'' False 2048 []) = []
   \<and> pathKeyCreate demo_lib demo_store (request ''carol'' False 2048 []) =
       (Returns (Inr (Some (ErrorResponse ''the key value is required for generated keys''))),
        demo_store)
   \<and> ReadArmoredKeyRing demo_lib (field_key (request ''carol'' False 2048 ''garbage'')) =
       Inl (Error ''openpgp: invalid argument: no armored data found'')
   \<and> pathKeyCreate demo_lib demo_store (request ''carol'' False 2048 ''garbage'') =
       (Returns (Inr (Some (ErrorResponse
          ''openpgp: invalid argument: no armored data found''))), demo_store)
   \<and> ReadArmoredKeyRing demo_lib (field_key (request ''carol'' False 2048 ''empty block'')) =
       Inr []
   \<and> pathKeyCreate demo_lib demo_store (request ''carol'' False 2048 ''empty block'') =
       (Panics IndexOutOfRange, demo_store)
   \<and> ReadArmoredKeyRing demo_lib (field_key (request ''carol'' False 2048 ''public only'')) =
       Inr [bob_entity]
   \<and> \<not> carries_private bob_entity
   \<and> pathKeyCreate demo_lib demo_store (request ''carol'' False 2048 ''public only'') =
       (Returns (Inr (Some (ErrorResponse
          ''the key could not be serialized, is a private key present?''))), demo_store)
   \<and> serializePrivateWithoutSigning
         (demo_lib\<lparr>PrivateKey_Serialize := \<lambda>k. ([], Some (Error ''unknown private key type''))\<rparr>)
         [] alice_entity = ([], Some (Error ''unknown private key type''))
   \<and> pathKeyCreate
         (demo_lib\<lparr>PrivateKey_Serialize := \<lambda>k. ([], Some (Error ''unknown private key type''))\<rparr>)
         demo_store (request ''carol'' False 2048 ''two keys'') =
       (Returns (Inr (Some (ErrorResponse
          ''the key could not be serialized, is a private key present?''))), demo_store)
   \<and> serializePrivateWithoutSigning
         (demo_lib\<lparr>EncodeJSON := \<lambda>k. Inl (Error ''json: unsupported value'')\<rparr>) [] alice_entity =
       ([0x95, 0x01, 0xB4, 0x05, 0x89, 0x10, 0x9D, 0x02, 0x89, 0x18], None)
   \<and> pathKeyCreate (demo_lib\<lparr>EncodeJSON := \<lambda>k. Inl (Error ''json: unsupported value'')\<rparr>)
         demo_store (request ''carol'' False 2048 ''two keys'') =
       (Returns (Inl (Error ''json: unsupported value'')), demo_store)
   \<and> putErr demo_store = None
   \<and> pathKeyCreate demo_lib (demo_store\<lparr>entries := Map.empty\<rparr>)
         (request ''carol'' False 2048 ''public only'') =
       (fst (pathKeyCreate demo_lib demo_store (request ''carol'' False 2048 ''public only'')),
        demo_store\<lparr>entries := Map.empty\<rparr>)
   \<and> fst (pathKeyCreate demo_lib demo_store (request ''carol'' True 2048 [])) = Returns (Inr None)
   \<and> snd (pathKeyCreate demo_lib demo_store (request ''carol'' True 2048 [])) =
       demo_store\<lparr>entries := (entries demo_store)(''key/carol'' \<mapsto> [1, 0x95, 0x01])\<rparr>"
proof -
  let ?short = "demo_lib\<lparr>SerializePrivate := \<lambda>e. ([0x95], Some (Error ''short write''))\<rparr>"
  let ?json = "demo_lib\<lparr>EncodeJSON := \<lambda>k. Inl (Error ''json: unsupported value'')\<rparr>"
  let ?locked =
    "demo_lib\<lparr>PrivateKey_Serialize := \<lambda>k. ([], Some (Error ''unknown private key type''))\<rparr>"
  note T = failed_create_leaves_store_unchanged
  note T1 = T [THEN conjunct1, rule_format]
  note T2 = T [THEN conjunct2, THEN conjunct1, rule_format]
  note T3 = T [THEN conjunct2, THEN conjunct2, THEN conjunct1, rule_format]
  note T4 = T [THEN conjunct2, THEN conjunct2, THEN conjunct2, THEN conjunct1, rule_format]
  note T5 = T [THEN conjunct2, THEN conjunct2, THEN conjunct2, THEN conjunct2, THEN conjunct1, rule_format]
  note T6 = T [THEN conjunct2, THEN conjunct2, THEN conjunct2, THEN conjunct2, THEN conjunct2, THEN conjunct1, rule_format]
  note T7 = T [THEN conjunct2, THEN conjunct2, THEN conjunct2, THEN conjunct2, THEN conjunct2, THEN conjunct2, THEN conjunct1, rule_format]
  note T8 = T [THEN conjunct2, THEN conjunct2, THEN conjunct2, THEN conjunct2, THEN conjunct2, THEN conjunct2, THEN conjunct2, THEN conjunct1, rule_format]
  note T9 = T [THEN conjunct2, THEN conjunct2, THEN conjunct2, THEN conjunct2, THEN conjunct2, THEN conjunct2, THEN conjunct2, THEN conjunct2, THEN conjunct1, rule_format]
  note T10 = T [THEN conjunct2, THEN conjunct2, THEN conjunct2, THEN conjunct2, THEN conjunct2, THEN conjunct2, THEN conjunct2, THEN conjunct2, THEN conjunct2, THEN conjunct1, rule_format]
  note T11 = T [THEN conjunct2, THEN conjunct2, THEN conjunct2, THEN conjunct2, THEN conjunct2, THEN conjunct2, THEN conjunct2, THEN conjunct2, THEN conjunct2, THEN conjunct2, THEN conjunct1, rule_format]
  have g47: "field_generate (request ''carol'' True 2047 [])"
    and b47: "field_key_bits (request ''carol'' True 2047 []) < 2048"
    and g48: "field_generate (request ''carol'' True 2048 [])"
    and b48: "\<not> field_key_bits (request ''carol'' True 2048 []) < 2048"
    and g92: "field_generate (request ''carol'' True 8192 [])"
    and b92: "\<not> field_key_bits (request ''carol'' True 8192 []) < 2048"
    and ng: "\<not> field_generate (request ''carol'' False 2048 k)"
    and k0: "field_key (request ''carol'' False 2048 []) = []"
    and k1: "field_key (request ''carol'' False 2048 ''garbage'') \<noteq> []"
    and k2: "field_key (request ''carol'' False 2048 ''empty block'') \<noteq> []"
    and k3: "field_key (request ''carol'' False 2048 ''public only'') \<noteq> []"
    and k4: "field_key (request ''carol'' False 2048 ''two keys'') \<noteq> []"
    for k
    by (simp_all add: request_def)
  have c1: "pathKeyCreate demo_lib demo_store (request ''carol'' True 2047 []) =
      (Returns (Inr (Some (ErrorResponse ''Keys < 2048 bits are unsafe and not supported''))),
       demo_store)"
    by (rule T1) (intro conjI g47 b47)
  have h2: "NewEntity demo_lib (field_real_name (request ''carol'' True 8192 []))
      (field_comment (request ''carol'' True 8192 []))
      (field_email (request ''carol'' True 8192 []))
      \<lparr>RSABits = field_key_bits (request ''carol'' True 8192 [])\<rparr> =
      Inl (Error ''key generation failed'')"
    by (simp add: demo_lib_def request_def)
  have c2: "pathKeyCreate demo_lib demo_store (request ''carol'' True 8192 []) =
      (Returns (Inl (Error ''key generation failed'')), demo_store)"
    by (rule T2) (intro conjI g92 b92 h2)
  have n3: "NewEntity ?short (field_real_name (request ''carol'' True 2048 []))
      (field_comment (request ''carol'' True 2048 []))
      (field_email (request ''carol'' True 2048 []))
      \<lparr>RSABits = field_key_bits (request ''carol'' True 2048 [])\<rparr> = Inr alice_entity"
    by (simp add: demo_lib_def request_def)
  have h3: "SerializePrivate ?short alice_entity = ([0x95], Some (Error ''short write''))"
    by simp
  have c3: "pathKeyCreate ?short demo_store (request ''carol'' True 2048 []) =
      (Returns (Inl (Error ''short write'')), demo_store)"
    by (rule T3 [where ent = alice_entity and buf = "[0x95]"]) (intro conjI g48 b48 n3 h3)
  have n4: "NewEntity ?json (field_real_name (request ''carol'' True 2048 []))
      (field_comment (request ''carol'' True 2048 []))
      (field_email (request ''carol'' True 2048 []))
      \<lparr>RSABits = field_key_bits (request ''carol'' True 2048 [])\<rparr> = Inr alice_entity"
    by (simp add: demo_lib_def request_def)
  have s4: "SerializePrivate ?json alice_entity = ([0x95, 0x01], None)"
    by (simp add: demo_lib_def)
  have h4: "EncodeJSON ?json
      \<lparr>SerializedKey = [0x95, 0x01],
       Exportable = field_exportable (request ''carol'' True 2048 [])\<rparr> =
      Inl (Error ''json: unsupported value'')"
    by simp
  have c4: "pathKeyCreate ?json demo_store (request ''carol'' True 2048 []) =
      (Returns (Inl (Error ''json: unsupported value'')), demo_store)"
    by (rule T4 [where ent = alice_entity and buf = "[0x95, 0x01]"])
      (intro conjI g48 b48 n4 s4 h4)
  have c5: "pathKeyCreate demo_lib demo_store (request ''carol'' False 2048 []) =
      (Returns (Inr (Some (ErrorResponse ''the key value is required for generated keys''))),
       demo_store)"
    by (rule T5) (intro conjI ng k0)
  have h6: "ReadArmoredKeyRing demo_lib (field_key (request ''carol'' False 2048 ''garbage'')) =
      Inl (Error ''openpgp: invalid argument: no armored data found'')"
    by (simp add: demo_lib_def request_def)
  have c6: "pathKeyCreate demo_lib demo_store (request ''carol'' False 2048 ''garbage'') =
      (Returns (Inr (Some (ErrorResponse
         ''openpgp: invalid argument: no armored data found''))), demo_store)"
    by (rule T6) (intro conjI ng k1 h6)
  have h7: "ReadArmoredKeyRing demo_lib
      (field_key (request ''carol'' False 2048 ''empty block'')) = Inr []"
    by (simp add: demo_lib_def request_def)
  have c7: "pathKeyCreate demo_lib demo_store (request ''carol'' False 2048 ''empty block'') =
      (Panics IndexOutOfRange, demo_store)"
    by (rule T7) (intro conjI ng k2 h7)
  have h8: "ReadArmoredKeyRing demo_lib
      (field_key (request ''carol'' False 2048 ''public only'')) = Inr [bob_entity]"
    by (simp add: demo_lib_def request_def)
  have p8: "\<not> carries_private bob_entity"
    by (simp add: carries_private_def bob_entity_def)
  have c8: "pathKeyCreate demo_lib demo_store (request ''carol'' False 2048 ''public only'') =
      (Returns (Inr (Some (ErrorResponse
         ''the key could not be serialized, is a private key present?''))), demo_store)"
    by (rule T8 [where e = bob_entity and es = "[]"]) (intro conjI ng k3 h8 p8)
  have r9: "ReadArmoredKeyRing ?locked
      (field_key (request ''carol'' False 2048 ''two keys'')) = Inr [alice_entity, bob_entity]"
    by (simp add: demo_lib_def request_def)
  have h9: "serializePrivateWithoutSigning ?locked [] alice_entity =
      ([], Some (Error ''unknown private key type''))"
    by (simp add: serializePrivateWithoutSigning_def Serialize_to_def alice_entity_def)
  have c9: "pathKeyCreate ?locked demo_store (request ''carol'' False 2048 ''two keys'') =
      (Returns (Inr (Some (ErrorResponse
         ''the key could not be serialized, is a private key present?''))), demo_store)"
    by (rule T9 [where e = alice_entity and es = "[bob_entity]" and buf = "[]"
          and err = "Error ''unknown private key type''"])
      (intro conjI ng k4 r9 h9)
  have r10: "ReadArmoredKeyRing ?json
      (field_key (request ''carol'' False 2048 ''two keys'')) = Inr [alice_entity, bob_entity]"
    by (simp add: demo_lib_def request_def)
  have h10: "serializePrivateWithoutSigning ?json [] alice_entity =
      ([0x95, 0x01, 0xB4, 0x05, 0x89, 0x10, 0x9D, 0x02, 0x89, 0x18], None)"
    by (simp add: serializePrivateWithoutSigning_def Serialize_to_def demo_lib_def
        alice_entity_def)
  have j10: "EncodeJSON ?json
      \<lparr>SerializedKey = [0x95, 0x01, 0xB4, 0x05, 0x89, 0x10, 0x9D, 0x02, 0x89, 0x18],
       Exportable = field_exportable (request ''carol'' False 2048 ''two keys'')\<rparr> =
      Inl (Error ''json: unsupported value'')"
    by simp
  have c10: "pathKeyCreate ?json demo_store (request ''carol'' False 2048 ''two keys'') =
      (Returns (Inl (Error ''json: unsupported value'')), demo_store)"
    by (rule T10 [where e = alice_entity and es = "[bob_entity]"
          and buf = "[0x95, 0x01, 0xB4, 0x05, 0x89, 0x10, 0x9D, 0x02, 0x89, 0x18]"])
      (intro conjI ng k4 r10 h10 j10)
  have c12: "pathKeyCreate demo_lib demo_store (request ''carol'' True 2048 []) =
      (Returns (Inr None),
       demo_store\<lparr>entries := (entries demo_store)(''key/carol'' \<mapsto> [1, 0x95, 0x01])\<rparr>)"
    by (simp add: pathKeyCreate_def StorageEntryJSON_def Storage_Put_def Serialize_to_def
        demo_lib_def demo_store_def request_def)
  have f12: "fst (pathKeyCreate demo_lib demo_store (request ''carol'' True 2048 [])) =
      Returns (Inr None)"
    and s12: "snd (pathKeyCreate demo_lib demo_store (request ''carol'' True 2048 [])) =
      demo_store\<lparr>entries := (entries demo_store)(''key/carol'' \<mapsto> [1, 0x95, 0x01])\<rparr>"
    by (simp_all add: c12)
  note T12 = T [THEN conjunct2, THEN conjunct2, THEN conjunct2, THEN conjunct2,
      THEN conjunct2, THEN conjunct2, THEN conjunct2, THEN conjunct2, THEN conjunct2,
      THEN conjunct2, THEN conjunct2, rule_format]
  have p11: "putErr demo_store = None"
    using T12 [OF f12, THEN conjunct1] .
  have f11: "fst (pathKeyCreate demo_lib demo_store
      (request ''carol'' False 2048 ''public only'')) \<noteq> Returns (Inr None)"
    by (simp add: c8)
  have c11: "pathKeyCreate demo_lib (demo_store\<lparr>entries := Map.empty\<rparr>)
      (request ''carol'' False 2048 ''public only'') =
      (fst (pathKeyCreate demo_lib demo_store (request ''carol'' False 2048 ''public only'')),
       demo_store\<lparr>entries := Map.empty\<rparr>)"
    using T11 [OF f11, THEN conjunct2, THEN mp, OF p11] .
  show ?thesis
    by (intro conjI g47 b47 c1 h2 c2 h3 c3 h4 c4 k0 c5 h6 c6 h7 c7 h8 p8 c8 h9 c9 h10 c10
        p11 c11 f12 s12)
qed

subsection \<open>C6: the payload of a read\<close>




subsection \<open>C7: the fingerprint of a read is a function of the stored key\<close>



subsection \<open>C8: reading a name that has no record\<close>

text \<open>
  C8. When the store holds no record for the name and \<open>Get\<close> does not fail, a
  read returns \<open>(nil, nil)\<close>: no payload and no error, which is neither an
  error response nor a Go error. When \<open>Get\<close> fails, the read returns that
  error.
\<close>

theorem read_of_absent_name:
  "(getErr s = None \<and> entries s (''key/'' @ field_name d) = None \<longrightarrow>
      pathKeyRead lib s d = Returns (Inr None)
      \<and> pathKeyRead lib s d \<noteq> Returns (Inr (Some (ErrorResponse msg)))
      \<and> pathKeyRead lib s d \<noteq> Returns (Inl err))
   \<and> (getErr s = Some err \<longrightarrow> pathKeyRead lib s d = Returns (Inl err))"
  by (simp add: pathKeyRead_def key_def Storage_Get_def)

theorem read_of_absent_name_witness:
  "getErr demo_store = None
   \<and> entries demo_store (''key/'' @ field_name (request ''nobody'' True 2048 [])) = None
   \<and> pathKeyRead demo_lib demo_store (request ''nobody'' True 2048 []) = Returns (Inr None)
   \<and> getErr (demo_store\<lparr>getErr := Some (Error ''storage unreachable'')\<rparr>) =
       Some (Error ''storage unreachable'')
   \<and> pathKeyRead demo_lib (demo_store\<lparr>getErr := Some (Error ''storage unreachable'')\<rparr>)
         (request ''nobody'' True 2048 []) =
       Returns (Inl (Error ''storage unreachable''))"
proof -
  have h1: "getErr demo_store = None
      \<and> entries demo_store (''key/'' @ field_name (request ''nobody'' True 2048 [])) = None"
    by (simp add: demo_store_def request_def)
  have h2: "getErr (demo_store\<lparr>getErr := Some (Error ''storage unreachable'')\<rparr>) =
      Some (Error ''storage unreachable'')"
    by simp
  show ?thesis
    using h1 h2
      read_of_absent_name [of demo_store "request ''nobody'' True 2048 []" demo_lib
        "[]" "Error ''storage unreachable''"]
      read_of_absent_name [of "demo_store\<lparr>getErr := Some (Error ''storage unreachable'')\<rparr>"
        "request ''nobody'' True 2048 []" demo_lib "[]" "Error ''storage unreachable''"]
    by blast
qed

subsection \<open>C9: delete is idempotent\<close>

text \<open>
  C9. With a store whose \<open>Delete\<close> does not fail: deleting a name that has no
  record returns \<open>(nil, nil)\<close> and leaves the store as it was; any delete
  returns \<open>(nil, nil)\<close> and leaves no record for the name; and a second
  delete of the same name again returns \<open>(nil, nil)\<close> and changes nothing.
\<close>

theorem delete_is_idempotent:
  assumes "deleteErr s = None"
  shows "(entries s (''key/'' @ field_name d) = None \<longrightarrow>
            pathKeyDelete s d = (Returns (Inr None), s))
       \<and> fst (pathKeyDelete s d) = Returns (Inr None)
       \<and> entries (snd (pathKeyDelete s d)) (''key/'' @ field_name d) = None
       \<and> pathKeyDelete (snd (pathKeyDelete s d)) d =
           (Returns (Inr None), snd (pathKeyDelete s d))"
  using assms by (auto simp: pathKeyDelete_def Storage_Delete_def fun_upd_idem)

theorem delete_is_idempotent_witness:
  "deleteErr demo_store = None
   \<and> entries demo_store (''key/'' @ field_name (request ''nobody'' True 2048 [])) = None
   \<and> pathKeyDelete demo_store (request ''nobody'' True 2048 []) =
       (Returns (Inr None), demo_store)
   \<and> entries demo_store (''key/'' @ field_name (request ''alice'' True 2048 [])) =
       Some [1, 0x95, 0x01]
   \<and> fst (pathKeyDelete demo_store (request ''alice'' True 2048 [])) = Returns (Inr None)
   \<and> entries (snd (pathKeyDelete demo_store (request ''alice'' True 2048 [])))
       (''key/'' @ field_name (request ''alice'' True 2048 [])) = None
   \<and> pathKeyDelete (snd (pathKeyDelete demo_store (request ''alice'' True 2048 [])))
         (request ''alice'' True 2048 []) =
       (Returns (Inr None), snd (pathKeyDelete demo_store (request ''alice'' True 2048 [])))"
proof -
  have h: "deleteErr demo_store = None"
    by (simp add: demo_store_def)
  have a: "entries demo_store (''key/'' @ field_name (request ''nobody'' True 2048 [])) = None"
    by (simp add: demo_store_def request_def)
  have b: "entries demo_store (''key/'' @ field_name (request ''alice'' True 2048 [])) =
      Some [1, 0x95, 0x01]"
    by (simp add: demo_store_def request_def)
  show ?thesis
    using h a b
      delete_is_idempotent [OF h, of "request ''nobody'' True 2048 []"]
      delete_is_idempotent [OF h, of "request ''alice'' True 2048 []"]
    by blast
qed

subsection \<open>C10: the unchecked index into the parsed key ring\<close>

text \<open>
  C10. Both \<open>entity\<close> (the read path) and the import path of \<open>pathKeyCreate\<close>
  take element 0 of the list the parser returns without testing its length.
  \<open>entity\<close> panics exactly when the parser returns the empty list with no
  error, and returns the first entity when the list is not empty; a read of
  such a record panics; and an import with a key that is not empty panics
  exactly when the armored parser returns the empty list with no error, with
  the store as it was.
\<close>

theorem index_zero_is_unchecked:
  "(entity lib entry = Panics IndexOutOfRange) = (ReadKeyRing lib (SerializedKey entry) = Inr [])
   \<and> (ReadKeyRing lib (SerializedKey entry) = Inr (e # es) \<longrightarrow>
        entity lib entry = Returns (Inr e))
   \<and> (key lib s (field_name d) = Inr (Some entry)
        \<and> ReadKeyRing lib (SerializedKey entry) = Inr [] \<longrightarrow>
        pathKeyRead lib s d = Panics IndexOutOfRange)
   \<and> (\<not> field_generate d \<and> field_key d \<noteq> [] \<longrightarrow>
        (fst (pathKeyCreate lib s d) = Panics IndexOutOfRange) =
          (ReadArmoredKeyRing lib (field_key d) = Inr [])
        \<and> (ReadArmoredKeyRing lib (field_key d) = Inr [] \<longrightarrow>
             pathKeyCreate lib s d = (Panics IndexOutOfRange, s)))"
proof (intro conjI impI)
  show "(entity lib entry = Panics IndexOutOfRange) =
      (ReadKeyRing lib (SerializedKey entry) = Inr [])"
    by (simp add: entity_def split: sum.splits list.splits)
next
  assume "ReadKeyRing lib (SerializedKey entry) = Inr (e # es)"
  then show "entity lib entry = Returns (Inr e)"
    by (simp add: entity_def)
next
  assume "key lib s (field_name d) = Inr (Some entry)
        \<and> ReadKeyRing lib (SerializedKey entry) = Inr []"
  then show "pathKeyRead lib s d = Panics IndexOutOfRange"
    by (simp add: pathKeyRead_def entity_def)
next
  assume "\<not> field_generate d \<and> field_key d \<noteq> []"
  then show "(fst (pathKeyCreate lib s d) = Panics IndexOutOfRange) =
      (ReadArmoredKeyRing lib (field_key d) = Inr [])"
    by (auto simp: pathKeyCreate_def StorageEntryJSON_def Storage_Put_def
        split: sum.splits list.splits prod.splits option.splits error.splits)
next
  assume "\<not> field_generate d \<and> field_key d \<noteq> []"
    and "ReadArmoredKeyRing lib (field_key d) = Inr []"
  then show "pathKeyCreate lib s d = (Panics IndexOutOfRange, s)"
    by (simp add: pathKeyCreate_def)
qed

theorem index_zero_is_unchecked_witness:
  "ReadKeyRing demo_lib (SerializedKey \<lparr>SerializedKey = [], Exportable = False\<rparr>) = Inr []
   \<and> entity demo_lib \<lparr>SerializedKey = [], Exportable = False\<rparr> = Panics IndexOutOfRange
   \<and> ReadKeyRing demo_lib (SerializedKey \<lparr>SerializedKey = [0x95, 0x01], Exportable = True\<rparr>) =
       Inr [alice_entity, bob_entity]
   \<and> entity demo_lib \<lparr>SerializedKey = [0x95, 0x01], Exportable = True\<rparr> =
       Returns (Inr alice_entity)
   \<and> key demo_lib demo_store (field_name (request ''void'' True 2048 [])) =
       Inr (Some \<lparr>SerializedKey = [], Exportable = False\<rparr>)
   \<and> pathKeyRead demo_lib demo_store (request ''void'' True 2048 []) = Panics IndexOutOfRange
   \<and> \<not> field_generate (request ''carol'' False 2048 ''empty block'')
   \<and> field_key (request ''carol'' False 2048 ''empty block'') \<noteq> []
   \<and> ReadArmoredKeyRing demo_lib (field_key (request ''carol'' False 2048 ''empty block'')) =
       Inr []
   \<and> pathKeyCreate demo_lib demo_store (request ''carol'' False 2048 ''empty block'') =
       (Panics IndexOutOfRange, demo_store)"
proof -
  have h1: "ReadKeyRing demo_lib (SerializedKey \<lparr>SerializedKey = [], Exportable = False\<rparr>) =
      Inr []"
    by (simp add: demo_lib_def)
  have h2: "ReadKeyRing demo_lib
      (SerializedKey \<lparr>SerializedKey = [0x95, 0x01], Exportable = True\<rparr>) =
      Inr [alice_entity, bob_entity]"
    by (simp add: demo_lib_def)
  have h3: "key demo_lib demo_store (field_name (request ''void'' True 2048 [])) =
      Inr (Some \<lparr>SerializedKey = [], Exportable = False\<rparr>)"
    by (simp add: key_def Storage_Get_def demo_lib_def demo_store_def request_def)
  have h4: "\<not> field_generate (request ''carol'' False 2048 ''empty block'')
      \<and> field_key (request ''carol'' False 2048 ''empty block'') \<noteq> []"
    by (simp add: request_def)
  have h5: "ReadArmoredKeyRing demo_lib
      (field_key (request ''carol'' False 2048 ''empty block'')) = Inr []"
    by (simp add: demo_lib_def request_def)
  show ?thesis
    using h1 h2 h3 h4 h5
      index_zero_is_unchecked [of demo_lib "\<lparr>SerializedKey = [], Exportable = False\<rparr>"
        alice_entity "[bob_entity]" demo_store "request ''void'' True 2048 []"]
      index_zero_is_unchecked [of demo_lib
        "\<lparr>SerializedKey = [0x95, 0x01], Exportable = True\<rparr>"
        alice_entity "[bob_entity]" demo_store "request ''carol'' False 2048 ''empty block''"]
    by blast
qed


end
